theory Spec2Isabelle
  imports Complex_Main
begin

section \<open>JavaScript values\<close>

text \<open>
  The values the program handles at run time. A JavaScript number is a double; only its
  truthiness and its being copied matter here, so it is a real, an infinity or NaN.
  Strings are lists of code units. An object is the list of its own properties, each
  name once.
\<close>

datatype jsnum = NaN | PosInf | NegInf | Fin real

datatype jsval =
    JUndefined
  | JNull
  | JBool bool
  | JNum jsnum
  | JStr string
  | JArr "jsval list"
  | JObj "(string \<times> jsval) list"

text \<open>ToBoolean: what \<open>if (v)\<close>, \<open>!v\<close>, \<open>v || d\<close> and \<open>v && w\<close> test.\<close>

fun truthy :: "jsval \<Rightarrow> bool" where
  "truthy JUndefined = False"
| "truthy JNull = False"
| "truthy (JBool b) = b"
| "truthy (JNum n) = (n \<noteq> NaN \<and> n \<noteq> Fin 0)"
| "truthy (JStr s) = (s \<noteq> [])"
| "truthy (JArr xs) = True"
| "truthy (JObj kvs) = True"

text \<open>\<open>a || b\<close> on values, and on a string that may be undefined.\<close>

definition js_or :: "jsval \<Rightarrow> jsval \<Rightarrow> jsval" where
  "js_or a b = (if truthy a then a else b)"

definition str_or :: "string option \<Rightarrow> string \<Rightarrow> string" where
  "str_or t d = (case t of None \<Rightarrow> d | Some s \<Rightarrow> if s \<noteq> [] then s else d)"

text \<open>
  Reading a named property \<open>v.k\<close>, for the names the program reads (none of them is on a
  prototype): \<open>None\<close> is the TypeError of reading a property of \<open>null\<close> or \<open>undefined\<close>.
\<close>

fun js_get :: "jsval \<Rightarrow> string \<Rightarrow> jsval option" where
  "js_get JUndefined k = None"
| "js_get JNull k = None"
| "js_get (JObj kvs) k = Some (case map_of kvs k of None \<Rightarrow> JUndefined | Some v \<Rightarrow> v)"
| "js_get v k = Some JUndefined"

text \<open>\<open>v.length\<close> and \<open>v[0]\<close> of a value that is not \<open>null\<close> or \<open>undefined\<close>.\<close>

fun js_length :: "jsval \<Rightarrow> jsval" where
  "js_length (JArr xs) = JNum (Fin (real (length xs)))"
| "js_length (JStr s) = JNum (Fin (real (length s)))"
| "js_length (JObj kvs) = (case map_of kvs ''length'' of None \<Rightarrow> JUndefined | Some v \<Rightarrow> v)"
| "js_length v = JUndefined"

fun js_first :: "jsval \<Rightarrow> jsval" where
  "js_first (JArr xs) = (case xs of [] \<Rightarrow> JUndefined | x # _ \<Rightarrow> x)"
| "js_first (JStr s) = (case s of [] \<Rightarrow> JUndefined | c # _ \<Rightarrow> JStr [c])"
| "js_first (JObj kvs) = (case map_of kvs ''0'' of None \<Rightarrow> JUndefined | Some v \<Rightarrow> v)"
| "js_first v = JUndefined"

text \<open>\<open>s.includes(t)\<close>: \<open>t\<close> occurs in \<open>s\<close> as a contiguous run.\<close>

fun is_prefix :: "string \<Rightarrow> string \<Rightarrow> bool" where
  "is_prefix [] s = True"
| "is_prefix (c # t) [] = False"
| "is_prefix (c # t) (d # s) = (c = d \<and> is_prefix t s)"

fun js_includes :: "string \<Rightarrow> string \<Rightarrow> bool" where
  "js_includes [] t = (t = [])"
| "js_includes (c # s) t = (is_prefix t (c # s) \<or> js_includes s t)"

text \<open>\<open>s.split(',')[0]\<close>: the text before the first comma.\<close>

definition split_comma_first :: "string \<Rightarrow> string" where
  "split_comma_first s = takeWhile (\<lambda>c. c \<noteq> CHR '','') s"

text \<open>\<open>s.trim()\<close>, on code units below 256: tab, LF, VT, FF, CR, space and no-break space.\<close>

definition js_whitespace :: "char \<Rightarrow> bool" where
  "js_whitespace c = (c \<in> {CHR 0x09, CHR 0x0A, CHR 0x0B, CHR 0x0C, CHR 0x0D, CHR 0x20, CHR 0xA0})"

definition js_trim :: "string \<Rightarrow> string" where
  "js_trim s = rev (dropWhile js_whitespace (rev (dropWhile js_whitespace s)))"

section \<open>The data model (types.ts)\<close>

record Coordinates =
  lat :: jsnum
  lng :: jsnum

record LocationData =
  name :: string
  coords :: Coordinates

datatype PhotoStyle = REALISTIC | STREET | PORTRAIT | VINTAGE | CINEMATIC | JOURNALISTIC | PAINTING

text \<open>The string value of each member of the enum.\<close>

fun PhotoStyle_value :: "PhotoStyle \<Rightarrow> string" where
  "PhotoStyle_value REALISTIC = ''Realistic Photo''"
| "PhotoStyle_value STREET = ''Street Photography''"
| "PhotoStyle_value PORTRAIT = ''Portrait''"
| "PhotoStyle_value VINTAGE = ''Vintage/Sepia''"
| "PhotoStyle_value CINEMATIC = ''Cinematic Shot''"
| "PhotoStyle_value JOURNALISTIC = ''Photojournalism''"
| "PhotoStyle_value PAINTING = ''Oil Painting''"

record GenerationRequest =
  location :: LocationData
  date :: string
  time :: "string option"
  style :: PhotoStyle

text \<open>
  \<open>VisualContext\<close> and \<open>GeneratedImage\<close> declare their fields as strings, but the scene
  step fills them from \<open>JSON.parse\<close>, whose result is untyped: the fields hold whatever
  value the payload carried.
\<close>

record VisualContext =
  visualPrompt :: jsval
  story :: jsval

record GeneratedImage =
  imageUrl :: string
  description :: jsval
  story :: jsval
  promptUsed :: string

section \<open>The host: credential collaborator, network and built-ins\<close>

text \<open>
  A thrown value is any value (\<open>catch (err: any)\<close>): \<open>null\<close> and \<open>undefined\<close> included, and
  with a \<open>message\<close> of any kind or none. \<open>new Error(m)\<close> is an object whose \<open>message\<close> is
  \<open>m\<close>.
\<close>

type_synonym js_error = jsval

definition js_Error :: "string \<Rightarrow> js_error" where
  "js_Error m = JObj [(''message'', JStr m)]"

text \<open>The requests sent to the generation service.\<close>

datatype gen_config =
    JsonConfig string string "string list"
  | ImageConfig string string

record gen_request =
  model :: string
  contents :: string
  config :: gen_config

text \<open>The part of the service's response the adapters read.\<close>

record Blob =
  blob_data :: "string option"
  mimeType :: "string option"

record Part =
  part_text :: "string option"
  inlineData :: "Blob option"

record Content =
  parts :: "Part list option"

record Candidate =
  content :: "Content option"

record gen_response =
  response_text :: "string option"
  candidates :: "Candidate list option"

text \<open>What \<open>fetch\<close> resolves to: a response whose \<open>json()\<close> gives a value or throws.\<close>

datatype fetch_response = Response "js_error + jsval"

text \<open>Every call that leaves the program, in the order made.\<close>

datatype call =
    HasSelectedApiKey
  | OpenSelectKey
  | GenerateContent gen_request
  | Fetch string

text \<open>
  The host answers each call from the calls made so far. \<open>aistudio\<close> is \<open>window.aistudio\<close>,
  absent outside the hosting environment.
\<close>

record AIStudio =
  hasSelectedApiKey :: "call list \<Rightarrow> js_error + bool"
  openSelectKey :: "call list \<Rightarrow> js_error + unit"

record host =
  aistudio :: "AIStudio option"
  generateContent :: "call list \<Rightarrow> gen_request \<Rightarrow> js_error + gen_response"
  fetch :: "call list \<Rightarrow> string \<Rightarrow> js_error + fetch_response"
  JSON_parse :: "string \<Rightarrow> jsval option"
  ToString :: "jsval \<Rightarrow> string"
  ToNumber :: "jsval \<Rightarrow> jsnum"
  parseFloat :: "jsval \<Rightarrow> jsnum"
  parseInt :: "string \<Rightarrow> int option"
  encodeURIComponent :: "string \<Rightarrow> string"

text \<open>A value inside a template literal: a string is itself, anything else is converted.\<close>

definition template_str :: "host \<Rightarrow> jsval \<Rightarrow> string" where
  "template_str H v = (case v of JStr s \<Rightarrow> s | _ \<Rightarrow> ToString H v)"

section \<open>The generation service (services/geminiService)\<close>

definition nl :: string where
  "nl = [CHR 0x0A]"

text \<open>
  \<open>ensureApiKey\<close>: without the collaborator the answer is \<open>false\<close>; with it, one check, and
  after a negative check the picker and a second check, whose answer is returned. A
  rejected call propagates to the caller.
\<close>

definition ensureApiKey :: "host \<Rightarrow> call list \<Rightarrow> (js_error + bool) \<times> call list" where
  "ensureApiKey H tr =
     (case aistudio H of
        None \<Rightarrow> (Inr False, tr)
      | Some a \<Rightarrow>
          (case hasSelectedApiKey a tr of
             Inl e \<Rightarrow> (Inl e, tr @ [HasSelectedApiKey])
           | Inr hasKey \<Rightarrow>
               if \<not> hasKey then
                 (case openSelectKey a (tr @ [HasSelectedApiKey]) of
                    Inl e \<Rightarrow> (Inl e, tr @ [HasSelectedApiKey, OpenSelectKey])
                  | Inr _ \<Rightarrow>
                      (hasSelectedApiKey a (tr @ [HasSelectedApiKey, OpenSelectKey]),
                       tr @ [HasSelectedApiKey, OpenSelectKey, HasSelectedApiKey]))
               else (Inr True, tr @ [HasSelectedApiKey])))"

text \<open>The prompt of the scene step.\<close>

definition scene_prompt :: "host \<Rightarrow> GenerationRequest \<Rightarrow> string" where
  "scene_prompt H request =
     nl @ ''    Location Coordinates: ''
        @ ToString H (JNum (lat (LocationData.coords (location request)))) @ '', ''
        @ ToString H (JNum (lng (LocationData.coords (location request)))) @
     nl @ ''    Location Name: '' @ name (location request) @
     nl @ ''    Date: '' @ GenerationRequest.date request @
     nl @ ''    '' @ (case GenerationRequest.time request of
                        None \<Rightarrow> []
                      | Some t \<Rightarrow> if t \<noteq> [] then ''Time: '' @ t else []) @
     nl @ ''    '' @
     nl @ ''    Your task is twofold:'' @
     nl @ ''    1. 'visualPrompt': Describe the visual scene for an image generator. Focus on clothing, architecture, atmosphere, and historical accuracy.'' @
     nl @ ''    2. 'story': Write a brief, engaging, and fun historical snapshot/narrative of what is happening. Imagine you are a witty time-travel guide explaining the scene to a first-time traveler.'' @
     nl @ ''  ''"

definition scene_request :: "host \<Rightarrow> GenerationRequest \<Rightarrow> gen_request" where
  "scene_request H request =
     \<lparr>model = ''gemini-2.5-flash'',
      contents = scene_prompt H request,
      config = JsonConfig
        ''You are a historical visualization expert and storyteller. Return JSON only.''
        ''application/json'' [''visualPrompt'', ''story'']\<rparr>"

text \<open>
  The \<open>try\<close> block of \<open>generateVisualPrompt\<close>: \<open>None\<close> when \<open>JSON.parse\<close> throws, or when
  the parsed value is \<open>null\<close> and reading its property throws.
\<close>

definition parse_context :: "host \<Rightarrow> gen_response \<Rightarrow> VisualContext option" where
  "parse_context H response =
     (case JSON_parse H (str_or (response_text response) ''{}'') of
        None \<Rightarrow> None
      | Some json \<Rightarrow>
          (case js_get json ''visualPrompt'' of
             None \<Rightarrow> None
           | Some vp \<Rightarrow>
               (case js_get json ''story'' of
                  None \<Rightarrow> None
                | Some st \<Rightarrow>
                    Some \<lparr>visualPrompt = js_or vp (JStr ''A historical scene.''),
                          story = js_or st (JStr ''Welcome to the past!'')\<rparr>)))"

text \<open>The \<open>try\<close>/\<open>catch\<close> of \<open>generateVisualPrompt\<close>, on the response received.\<close>

definition context_of_response :: "host \<Rightarrow> gen_response \<Rightarrow> VisualContext" where
  "context_of_response H response =
     (case parse_context H response of
        Some vc \<Rightarrow> vc
      | None \<Rightarrow>
          \<lparr>visualPrompt = JStr (str_or (response_text response) ''A historical scene.''),
           story = JStr ''Time travel successful, but the flight log is scrambled.''\<rparr>)"

text \<open>
  \<open>generateVisualPrompt\<close>: one request; a failure of the request itself is outside the
  \<open>try\<close> and propagates.
\<close>

definition generateVisualPrompt ::
  "host \<Rightarrow> GenerationRequest \<Rightarrow> call list \<Rightarrow> (js_error + VisualContext) \<times> call list" where
  "generateVisualPrompt H request tr =
     (case generateContent H tr (scene_request H request) of
        Inl e \<Rightarrow> (Inl e, tr @ [GenerateContent (scene_request H request)])
      | Inr response \<Rightarrow>
          (Inr (context_of_response H response),
           tr @ [GenerateContent (scene_request H request)]))"

text \<open>The prompt of the image step.\<close>

definition finalPrompt :: "host \<Rightarrow> GenerationRequest \<Rightarrow> VisualContext \<Rightarrow> string" where
  "finalPrompt H request context' =
     nl @ ''    '' @ template_str H (visualPrompt context') @
     nl @ ''    '' @
     nl @ ''    Style: '' @ PhotoStyle_value (GenerationRequest.style request) @ ''.'' @
     nl @ ''    Quality: High resolution, photorealistic, 8k, detailed textures.'' @
     nl @ ''    Camera: Accurate to the era if vintage, or modern high-end capture if realistic.'' @
     nl @ ''  ''"

definition image_request :: "host \<Rightarrow> GenerationRequest \<Rightarrow> VisualContext \<Rightarrow> gen_request" where
  "image_request H request context' =
     \<lparr>model = ''gemini-3-pro-image-preview'',
      contents = finalPrompt H request context',
      config = ImageConfig ''16:9'' ''2K''\<rparr>"

text \<open>\<open>response.candidates?.[0]?.content?.parts\<close>\<close>

definition response_parts :: "gen_response \<Rightarrow> Part list option" where
  "response_parts response =
     (case candidates response of
        None \<Rightarrow> None
      | Some cs \<Rightarrow>
          (case cs of
             [] \<Rightarrow> None
           | c # _ \<Rightarrow> (case content c of None \<Rightarrow> None | Some ct \<Rightarrow> parts ct)))"

text \<open>
  The loop over the parts, starting from the empty URL: the first part whose \<open>inlineData\<close>
  and \<open>inlineData.data\<close> are both truthy sets the URL and ends the loop.
\<close>

fun scan_parts :: "Part list \<Rightarrow> string" where
  "scan_parts [] = []"
| "scan_parts (part # rest) =
     (case inlineData part of
        None \<Rightarrow> scan_parts rest
      | Some b \<Rightarrow>
          (case blob_data b of
             None \<Rightarrow> scan_parts rest
           | Some d \<Rightarrow> if d \<noteq> [] then ''data:image/png;base64,'' @ d else scan_parts rest))"

definition no_image_error :: js_error where
  "no_image_error = js_Error ''No image data received from API.''"

text \<open>What \<open>generateSnapshot\<close> does with the response received.\<close>

definition snapshot_of_response ::
  "host \<Rightarrow> GenerationRequest \<Rightarrow> VisualContext \<Rightarrow> gen_response \<Rightarrow> js_error + GeneratedImage" where
  "snapshot_of_response H request context' response =
     (let imageUrl' = (case response_parts response of None \<Rightarrow> [] | Some ps \<Rightarrow> scan_parts ps)
      in if imageUrl' = [] then Inl no_image_error
         else Inr \<lparr>imageUrl = imageUrl',
                   description = visualPrompt context',
                   story = VisualContext.story context',
                   promptUsed = finalPrompt H request context'\<rparr>)"

text \<open>\<open>generateSnapshot\<close>: one request; its \<open>catch\<close> logs and rethrows.\<close>

definition generateSnapshot ::
  "host \<Rightarrow> GenerationRequest \<Rightarrow> VisualContext \<Rightarrow> call list
     \<Rightarrow> (js_error + GeneratedImage) \<times> call list" where
  "generateSnapshot H request context' tr =
     (case generateContent H tr (image_request H request context') of
        Inl e \<Rightarrow> (Inl e, tr @ [GenerateContent (image_request H request context')])
      | Inr response \<Rightarrow>
          (snapshot_of_response H request context' response,
           tr @ [GenerateContent (image_request H request context')]))"

section \<open>The application (App.tsx)\<close>

text \<open>The presets. The \<open>label\<close> of a preset is only displayed and is left out.\<close>

record Recommendation =
  locationName :: string
  coords :: Coordinates
  date :: string
  time :: string
  style :: PhotoStyle

definition DEFAULT_COORDS :: Coordinates where
  "DEFAULT_COORDS = \<lparr>lat = Fin 28.6562, lng = Fin 77.2410\<rparr>"

definition RECOMMENDATIONS :: "Recommendation list" where
  "RECOMMENDATIONS =
     [\<lparr>locationName = ''Red Fort, Delhi'',
       coords = \<lparr>lat = Fin 28.6562, lng = Fin 77.2410\<rparr>,
       date = ''1947-08-15'', time = ''08:30'', style = JOURNALISTIC\<rparr>,
      \<lparr>locationName = ''Tranquility Base, Moon'',
       coords = \<lparr>lat = Fin 0.6740, lng = Fin 23.4720\<rparr>,
       date = ''1969-07-20'', time = ''20:17'', style = REALISTIC\<rparr>,
      \<lparr>locationName = ''Brandenburg Gate, Berlin'',
       coords = \<lparr>lat = Fin 52.5163, lng = Fin 13.3777\<rparr>,
       date = ''1989-11-09'', time = ''23:00'', style = JOURNALISTIC\<rparr>,
      \<lparr>locationName = ''Isla Nublar (Costa Rica)'',
       coords = \<lparr>lat = Fin 9.7489, lng = Fin (- 83.7534)\<rparr>,
       date = ''-65000000-01-01'', time = ''12:00'', style = CINEMATIC\<rparr>,
      \<lparr>locationName = ''Bethel, New York'',
       coords = \<lparr>lat = Fin 41.701, lng = Fin (- 74.880)\<rparr>,
       date = ''1969-08-15'', time = ''14:00'', style = VINTAGE\<rparr>,
      \<lparr>locationName = ''Southampton Docks, UK'',
       coords = \<lparr>lat = Fin 50.8970, lng = Fin (- 1.4040)\<rparr>,
       date = ''1912-04-10'', time = ''12:00'', style = VINTAGE\<rparr>]"

text \<open>
  The state of the component: one field for each \<open>useState\<close>. The error is \<open>None\<close> when
  it is \<open>null\<close>, and otherwise the value given to \<open>setError\<close>: a string, or whatever a
  thrown value carried as its message.
\<close>

record AppState =
  coords :: Coordinates
  locationName :: string
  date :: string
  time :: string
  style :: PhotoStyle
  isLoading :: bool
  loadingStep :: string
  result :: "GeneratedImage option"
  error :: "jsval option"

definition initial_state :: AppState where
  "initial_state =
     \<lparr>coords = DEFAULT_COORDS, locationName = ''Red Fort, Delhi'', date = ''1947-08-15'',
      time = ''10:00'', style = JOURNALISTIC, isLoading = False, loadingStep = [],
      result = None, error = None\<rparr>"

text \<open>How a block ends: by running to its end or by throwing.\<close>

datatype completion = Returned | Threw

subsection \<open>Forward geocoding\<close>

fun num_gt_zero :: "jsnum \<Rightarrow> bool" where
  "num_gt_zero NaN = False"
| "num_gt_zero PosInf = True"
| "num_gt_zero NegInf = False"
| "num_gt_zero (Fin r) = (0 < r)"

text \<open>\<open>v > 0\<close>: the operand is converted to a number first.\<close>

definition js_gt_zero :: "host \<Rightarrow> jsval \<Rightarrow> bool" where
  "js_gt_zero H v =
     (case v of
        JNum n \<Rightarrow> num_gt_zero n
      | JUndefined \<Rightarrow> False
      | JNull \<Rightarrow> False
      | JBool b \<Rightarrow> b
      | _ \<Rightarrow> num_gt_zero (ToNumber H v))"

definition search_url :: "host \<Rightarrow> string \<Rightarrow> string" where
  "search_url H q =
     ''https://nominatim.openstreetmap.org/search?format=json&q='' @ encodeURIComponent H q"

text \<open>
  The \<open>try\<close> block of \<open>handleSearch\<close>. \<open>s0\<close> is the state the handler was created in, whose
  \<open>locationName\<close> it reads; \<open>s\<close> is the state being updated. The coordinates are set before
  the display name is read, so they stay set when that read throws.
\<close>

definition handleSearch_try ::
  "host \<Rightarrow> AppState \<Rightarrow> AppState \<Rightarrow> call list \<Rightarrow> completion \<times> AppState \<times> call list" where
  "handleSearch_try H s0 s tr =
     (let url = search_url H (AppState.locationName s0); tr' = tr @ [Fetch url] in
      case fetch H tr url of
        Inl e \<Rightarrow> (Threw, s, tr')
      | Inr (Response body) \<Rightarrow>
          (case body of
             Inl e \<Rightarrow> (Threw, s, tr')
           | Inr data \<Rightarrow>
               if truthy data \<and> js_gt_zero H (js_length data) then
                 (case js_get (js_first data) ''lat'' of
                    None \<Rightarrow> (Threw, s, tr')
                  | Some la \<Rightarrow>
                      (case js_get (js_first data) ''lon'' of
                         None \<Rightarrow> (Threw, s, tr')
                       | Some lo \<Rightarrow>
                           (let s1 = s\<lparr>AppState.coords :=
                                         \<lparr>lat = parseFloat H la, lng = parseFloat H lo\<rparr>\<rparr>
                            in case js_get (js_first data) ''display_name'' of
                                 Some (JStr d) \<Rightarrow>
                                   (Returned,
                                    s1\<lparr>AppState.locationName := split_comma_first d\<rparr>, tr')
                               | _ \<Rightarrow> (Threw, s1, tr'))))
               else (Returned, s\<lparr>error := Some (JStr ''Location not found.'')\<rparr>, tr')))"

definition handleSearch :: "host \<Rightarrow> AppState \<times> call list \<Rightarrow> AppState \<times> call list" where
  "handleSearch H w =
     (case w of (s, tr) \<Rightarrow>
        if js_trim (AppState.locationName s) = [] then (s, tr)
        else
          (case handleSearch_try H s (s\<lparr>isLoading := True, loadingStep := ''Locating place...''\<rparr>) tr of
             (c, s2, tr2) \<Rightarrow>
               ((case c of
                   Threw \<Rightarrow> s2\<lparr>error := Some (JStr ''Could not find location.'')\<rparr>
                 | Returned \<Rightarrow> s2)\<lparr>isLoading := False, loadingStep := []\<rparr>,
                tr2)))"

subsection \<open>Reverse geocoding and the map click\<close>

definition reverse_url :: "host \<Rightarrow> Coordinates \<Rightarrow> string" where
  "reverse_url H c =
     ''https://nominatim.openstreetmap.org/reverse?format=json&lat='' @ ToString H (JNum (lat c))
       @ ''&lon='' @ ToString H (JNum (lng c))"

definition handleReverseGeocode_try ::
  "host \<Rightarrow> Coordinates \<Rightarrow> AppState \<times> call list \<Rightarrow> completion \<times> AppState \<times> call list" where
  "handleReverseGeocode_try H c w =
     (case w of (s, tr) \<Rightarrow>
        (let url = reverse_url H c; tr' = tr @ [Fetch url] in
         case fetch H tr url of
           Inl e \<Rightarrow> (Threw, s, tr')
         | Inr (Response body) \<Rightarrow>
             (case body of
                Inl e \<Rightarrow> (Threw, s, tr')
              | Inr data \<Rightarrow>
                  if truthy data then
                    (case js_get data ''display_name'' of
                       Some (JStr d) \<Rightarrow>
                         (Returned,
                          s\<lparr>AppState.locationName :=
                              str_or (Some (split_comma_first d)) ''Selected Location''\<rparr>,
                          tr')
                     | _ \<Rightarrow> (Threw, s, tr'))
                  else (Returned, s, tr'))))"

text \<open>The \<open>catch\<close> of \<open>handleReverseGeocode\<close> is empty: whatever the block throws ends there.\<close>

definition handleReverseGeocode ::
  "host \<Rightarrow> Coordinates \<Rightarrow> AppState \<times> call list \<Rightarrow> completion \<times> AppState \<times> call list" where
  "handleReverseGeocode H c w =
     (case handleReverseGeocode_try H c w of
        (Threw, s', tr') \<Rightarrow> (Returned, s', tr')
      | (Returned, s', tr') \<Rightarrow> (Returned, s', tr'))"

definition handleMapClick ::
  "host \<Rightarrow> Coordinates \<Rightarrow> AppState \<times> call list \<Rightarrow> completion \<times> AppState \<times> call list" where
  "handleMapClick H newCoords w =
     (case w of (s, tr) \<Rightarrow> handleReverseGeocode H newCoords (s\<lparr>AppState.coords := newCoords\<rparr>, tr))"

subsection \<open>Preset selection\<close>

text \<open>
  \<open>handleRecommendationChange\<close>, on the value of the selected option. \<open>parseInt\<close> gives an
  integer or NaN (\<open>None\<close>). An index outside the table reads \<open>undefined\<close>, and reading its
  \<open>locationName\<close> throws before any state is set: the result \<open>None\<close>.
\<close>

definition handleRecommendationChange :: "host \<Rightarrow> string \<Rightarrow> AppState \<Rightarrow> AppState option" where
  "handleRecommendationChange H v s =
     (case parseInt H v of
        None \<Rightarrow> Some s
      | Some index \<Rightarrow>
          if 0 \<le> index \<and> nat index < length RECOMMENDATIONS then
            (let rec = RECOMMENDATIONS ! nat index in
             Some (s\<lparr>AppState.locationName := Recommendation.locationName rec,
                     AppState.coords := Recommendation.coords rec,
                     AppState.date := Recommendation.date rec,
                     AppState.time := Recommendation.time rec,
                     AppState.style := Recommendation.style rec,
                     result := None,
                     error := None\<rparr>))
          else None)"

subsection \<open>The orchestrator\<close>

text \<open>The request built from the state the handler was created in.\<close>

definition build_request :: "AppState \<Rightarrow> GenerationRequest" where
  "build_request s =
     \<lparr>location = \<lparr>name = AppState.locationName s, coords = AppState.coords s\<rparr>,
      date = AppState.date s,
      time = Some (AppState.time s),
      style = AppState.style s\<rparr>"

text \<open>
  The \<open>try\<close> block of \<open>handleGenerate\<close>: what it threw, if anything, with the state and the
  calls at that point.
\<close>

definition handleGenerate_try ::
  "host \<Rightarrow> AppState \<Rightarrow> AppState \<Rightarrow> call list \<Rightarrow> js_error option \<times> AppState \<times> call list" where
  "handleGenerate_try H s0 s tr =
     (case ensureApiKey H tr of
        (Inl e, tr1) \<Rightarrow> (Some e, s, tr1)
      | (Inr hasKey, tr1) \<Rightarrow>
          if \<not> hasKey then
            (None, s\<lparr>error := Some (JStr ''API Key is required to use the Time Machine.'')\<rparr>, tr1)
          else
            (let s1 = s\<lparr>isLoading := True\<rparr>;
                 request = build_request s0;
                 s2 = s1\<lparr>loadingStep := ''Consulting historical archives...''\<rparr>
             in case generateVisualPrompt H request tr1 of
                  (Inl e, tr2) \<Rightarrow> (Some e, s2, tr2)
                | (Inr visualContext, tr2) \<Rightarrow>
                    (let s3 = s2\<lparr>loadingStep :=
                                    ''Developing historical snapshot (Nano Banana 3)...''\<rparr>
                     in case generateSnapshot H request visualContext tr2 of
                          (Inl e, tr3) \<Rightarrow> (Some e, s3, tr3)
                        | (Inr generatedImage, tr3) \<Rightarrow>
                            (None, s3\<lparr>result := Some generatedImage\<rparr>, tr3))))"

text \<open>
  \<open>m.includes(t)\<close> on a truthy value \<open>m\<close>, for a string \<open>t\<close>: a string looks for an
  occurrence of \<open>t\<close>, an array for an element equal to \<open>t\<close>; any other value has no such
  method and the call throws (\<open>None\<close>).
\<close>

definition includes_call :: "jsval \<Rightarrow> string \<Rightarrow> bool option" where
  "includes_call m t =
     (case m of
        JStr s \<Rightarrow> Some (js_includes s t)
      | JArr xs \<Rightarrow> Some (JStr t \<in> set xs)
      | _ \<Rightarrow> None)"

text \<open>
  The \<open>catch\<close> block of \<open>handleGenerate\<close>, on the thrown value and the state at the throw.
  The block itself throws (\<open>None\<close>, no message set) when the thrown value is \<open>null\<close> or
  \<open>undefined\<close>, so that reading its \<open>message\<close> throws, and when the message is truthy and
  has no \<open>includes\<close>.
\<close>

definition handleGenerate_catch :: "js_error \<Rightarrow> AppState \<Rightarrow> AppState option" where
  "handleGenerate_catch err s =
     (case js_get err ''message'' of
        None \<Rightarrow> None
      | Some m \<Rightarrow>
          if truthy m then
            (case includes_call m ''Requested entity was not found'' of
               None \<Rightarrow> None
             | Some found \<Rightarrow>
                 if found then
                   Some (s\<lparr>error := Some (JStr
                     ''API Key validation failed. Please try selecting your key again.'')\<rparr>)
                 else
                   Some (s\<lparr>error := Some (js_or m
                     (JStr ''Failed to generate time travel snapshot.''))\<rparr>))
          else
            Some (s\<lparr>error := Some (js_or m
              (JStr ''Failed to generate time travel snapshot.''))\<rparr>))"

text \<open>
  \<open>handleGenerate\<close>: the \<open>finally\<close> block runs however the \<open>try\<close> and the \<open>catch\<close> end. The
  handler ends by throwing only when its \<open>catch\<close> block throws.
\<close>

definition handleGenerate ::
  "host \<Rightarrow> AppState \<times> call list \<Rightarrow> completion \<times> AppState \<times> call list" where
  "handleGenerate H w =
     (case w of (s, tr) \<Rightarrow>
        (case handleGenerate_try H s (s\<lparr>error := None, result := None\<rparr>) tr of
           (thrown, s1, tr1) \<Rightarrow>
             (case thrown of
                None \<Rightarrow> (Returned, s1\<lparr>isLoading := False, loadingStep := []\<rparr>, tr1)
              | Some err \<Rightarrow>
                  (case handleGenerate_catch err s1 of
                     None \<Rightarrow> (Threw, s1\<lparr>isLoading := False, loadingStep := []\<rparr>, tr1)
                   | Some s2 \<Rightarrow>
                       (Returned, s2\<lparr>isLoading := False, loadingStep := []\<rparr>, tr1)))))"

section \<open>Notions of the specification\<close>



definition returned_parts :: "gen_response \<Rightarrow> Part list" where
  "returned_parts response = (case response_parts response of None \<Rightarrow> [] | Some ps \<Rightarrow> ps)"

text \<open>A value that is a non-empty string; a value that is a string or falsy.\<close>

fun nonempty_string :: "jsval \<Rightarrow> bool" where
  "nonempty_string (JStr s) = (s \<noteq> [])"
| "nonempty_string v = False"

fun string_or_falsy :: "jsval \<Rightarrow> bool" where
  "string_or_falsy (JStr s) = True"
| "string_or_falsy v = (\<not> truthy v)"

text \<open>The field \<open>k\<close> of a parsed payload: \<open>undefined\<close> when the payload has none.\<close>

definition payload_field :: "jsval \<Rightarrow> string \<Rightarrow> jsval" where
  "payload_field json k = (case js_get json k of None \<Rightarrow> JUndefined | Some v \<Rightarrow> v)"

text \<open>The calls to the credential collaborator, and the requests to the generation service.\<close>

fun is_key_call :: "call \<Rightarrow> bool" where
  "is_key_call HasSelectedApiKey = True"
| "is_key_call OpenSelectKey = True"
| "is_key_call c = False"

fun is_generation_call :: "call \<Rightarrow> bool" where
  "is_generation_call (GenerateContent rq) = True"
| "is_generation_call c = False"

text \<open>
  A thrown value carries a message when it is not \<open>null\<close> or \<open>undefined\<close> and its
  \<open>message\<close> is a string, or is absent or otherwise falsy.
\<close>

definition carries_message :: "js_error \<Rightarrow> bool" where
  "carries_message e =
     (case js_get e ''message'' of None \<Rightarrow> False | Some m \<Rightarrow> string_or_falsy m)"

text \<open>
  The value the \<open>catch\<close> block of \<open>handleGenerate\<close> gives to \<open>setError\<close> for a thrown value:
  none when the block itself throws.
\<close>

definition shown_error :: "js_error \<Rightarrow> jsval option" where
  "shown_error e =
     (case js_get e ''message'' of
        None \<Rightarrow> None
      | Some m \<Rightarrow>
          if truthy m then
            (case includes_call m ''Requested entity was not found'' of
               None \<Rightarrow> None
             | Some found \<Rightarrow>
                 Some (if found
                       then JStr ''API Key validation failed. Please try selecting your key again.''
                       else m))
          else Some (JStr ''Failed to generate time travel snapshot.''))"

text \<open>
  The steps of a run started in state \<open>s\<close> after the calls \<open>tr\<close>: the credential check, the
  scene step (Analyzing) and the image step (Rendering), each with its outcome; a step
  that is not reached has none.
\<close>

definition credential_step :: "host \<Rightarrow> call list \<Rightarrow> js_error + bool" where
  "credential_step H tr = fst (ensureApiKey H tr)"

definition scene_step :: "host \<Rightarrow> AppState \<Rightarrow> call list \<Rightarrow> (js_error + VisualContext) option" where
  "scene_step H s tr =
     (case ensureApiKey H tr of
        (Inr True, tr1) \<Rightarrow> Some (fst (generateVisualPrompt H (build_request s) tr1))
      | _ \<Rightarrow> None)"

definition image_step :: "host \<Rightarrow> AppState \<Rightarrow> call list \<Rightarrow> (js_error + GeneratedImage) option" where
  "image_step H s tr =
     (case ensureApiKey H tr of
        (Inr True, tr1) \<Rightarrow>
          (case generateVisualPrompt H (build_request s) tr1 of
             (Inr vc, tr2) \<Rightarrow> Some (fst (generateSnapshot H (build_request s) vc tr2))
           | _ \<Rightarrow> None)
      | _ \<Rightarrow> None)"

text \<open>The value thrown inside the \<open>try\<close> block of a run, if any step throws.\<close>

definition run_thrown :: "host \<Rightarrow> AppState \<Rightarrow> call list \<Rightarrow> js_error option" where
  "run_thrown H s tr =
     (case credential_step H tr of
        Inl e \<Rightarrow> Some e
      | Inr hasKey \<Rightarrow>
          (case scene_step H s tr of
             None \<Rightarrow> None
           | Some (Inl e) \<Rightarrow> Some e
           | Some (Inr vc) \<Rightarrow>
               (case image_step H s tr of
                  Some (Inl e) \<Rightarrow> Some e
                | _ \<Rightarrow> None)))"

section \<open>Example hosts and responses\<close>

text \<open>
  The built-ins of the example hosts are tabulated on the inputs the examples use:
  \<open>JSON.parse\<close> on five texts (every other text of the examples is not JSON),
  \<open>parseInt\<close> on the values of the preset options, \<open>encodeURIComponent\<close> on
  unreserved characters, and the conversion to a string on strings, the empty array and
  the two coordinates of scenario A.
\<close>

definition JSON_parse_table :: "string \<Rightarrow> jsval option" where
  \<open>JSON_parse_table =
     map_of
       [(''{}'', JObj []),
        (''[]'', JArr []),
        (''null'', JNull),
        (''{"visualPrompt":"A crowd before the fort at dawn.","story":"Midnight has passed."}'',
         JObj [(''visualPrompt'', JStr ''A crowd before the fort at dawn.''),
               (''story'', JStr ''Midnight has passed.'')]),
        (''{"visualPrompt":[],"story":7}'',
         JObj [(''visualPrompt'', JArr []), (''story'', JNum (Fin 7))])]\<close>

definition parseInt_table :: "string \<Rightarrow> int option" where
  "parseInt_table =
     map_of [(''0'', 0), (''1'', 1), (''2'', 2), (''3'', 3), (''4'', 4), (''5'', 5)]"

definition ToString_table :: "jsval \<Rightarrow> string" where
  "ToString_table v =
     (case v of
        JStr s \<Rightarrow> s
      | JNum n \<Rightarrow>
          if n = Fin 28.6562 then ''28.6562'' else if n = Fin 77.2410 then ''77.241'' else []
      | _ \<Rightarrow> [])"

definition network_down :: js_error where
  "network_down = js_Error ''Failed to fetch''"

definition entity_not_found :: js_error where
  "entity_not_found = js_Error ''Requested entity was not found.''"

text \<open>A thrown object with no message of its own.\<close>

definition no_message :: js_error where
  "no_message = JObj []"

text \<open>A host with no credential collaborator and no network.\<close>

definition bare_host :: host where
  "bare_host =
     \<lparr>aistudio = None,
      generateContent = (\<lambda>tr rq. Inl network_down),
      fetch = (\<lambda>tr url. Inl network_down),
      JSON_parse = JSON_parse_table,
      ToString = ToString_table,
      ToNumber = (\<lambda>v. NaN),
      parseFloat = (\<lambda>v. NaN),
      parseInt = parseInt_table,
      encodeURIComponent = (\<lambda>s. s)\<rparr>"

text \<open>Credential collaborators: a key already selected, and one selected in the picker.\<close>

definition key_selected :: AIStudio where
  "key_selected = \<lparr>hasSelectedApiKey = (\<lambda>tr. Inr True), openSelectKey = (\<lambda>tr. Inr ())\<rparr>"

definition key_from_picker :: AIStudio where
  "key_from_picker =
     \<lparr>hasSelectedApiKey = (\<lambda>tr. Inr (OpenSelectKey \<in> set tr)),
      openSelectKey = (\<lambda>tr. Inr ())\<rparr>"

definition key_declined :: AIStudio where
  "key_declined = \<lparr>hasSelectedApiKey = (\<lambda>tr. Inr False), openSelectKey = (\<lambda>tr. Inr ())\<rparr>"

text \<open>Responses of the generation service.\<close>

definition text_response :: "string \<Rightarrow> gen_response" where
  "text_response t = \<lparr>response_text = Some t, candidates = None\<rparr>"

definition parts_response :: "Part list \<Rightarrow> gen_response" where
  "parts_response ps =
     \<lparr>response_text = None, candidates = Some [\<lparr>content = Some \<lparr>parts = Some ps\<rparr>\<rparr>]\<rparr>"



text \<open>
  A host with a selected key whose service answers the scene request with the first
  argument and the image request with the second.
\<close>

definition service_host ::
  "(js_error + gen_response) \<Rightarrow> (js_error + gen_response) \<Rightarrow> host" where
  "service_host scene_answer image_answer =
     bare_host\<lparr>aistudio := Some key_selected,
               generateContent :=
                 (\<lambda>tr rq. if model rq = ''gemini-2.5-flash'' then scene_answer
                           else image_answer)\<rparr>"

definition scene_json :: string where
  \<open>scene_json =
     ''{"visualPrompt":"A crowd before the fort at dawn.","story":"Midnight has passed."}''\<close>

text \<open>The request of scenario A, and the state it is built from.\<close>

definition scenario_A_state :: AppState where
  "scenario_A_state = initial_state\<lparr>AppState.time := ''08:30''\<rparr>"

definition scenario_A_request :: GenerationRequest where
  "scenario_A_request =
     \<lparr>location = \<lparr>name = ''Red Fort, Delhi'', coords = \<lparr>lat = Fin 28.6562, lng = Fin 77.2410\<rparr>\<rparr>,
      date = ''1947-08-15'',
      time = Some ''08:30'',
      style = JOURNALISTIC\<rparr>"

definition earlier_image :: GeneratedImage where
  "earlier_image =
     \<lparr>imageUrl = ''data:image/png;base64,AAAA'',
      description = JStr ''An earlier scene.'',
      story = JStr ''An earlier story.'',
      promptUsed = ''An earlier prompt.''\<rparr>"

text \<open>A host whose geocoding service answers every request with the given outcome.\<close>

definition geocoder_host :: "(js_error + fetch_response) \<Rightarrow> host" where
  "geocoder_host answer = bare_host\<lparr>fetch := (\<lambda>tr url. answer)\<rparr>"

section \<open>Verified properties\<close>

subsection \<open>The scan of the returned parts\<close>

text \<open>The returned parts are all the parts of the first candidate's content.\<close>

lemma returned_parts_first_candidate:
  "returned_parts \<lparr>response_text = t,
                   candidates = Some (\<lparr>content = Some \<lparr>parts = Some ps\<rparr>\<rparr> # cs)\<rparr> = ps"
  "returned_parts \<lparr>response_text = t, candidates = None\<rparr> = []"
  "returned_parts \<lparr>response_text = t, candidates = Some []\<rparr> = []"
  "returned_parts \<lparr>response_text = t, candidates = Some (\<lparr>content = None\<rparr> # cs)\<rparr> = []"
  "returned_parts \<lparr>response_text = t,
                   candidates = Some (\<lparr>content = Some \<lparr>parts = None\<rparr>\<rparr> # cs)\<rparr> = []"
  by (simp_all add: returned_parts_def response_parts_def)





subsection \<open>The scene step\<close>

lemma context_of_response_fallback:
  assumes "response_text response = Some t" and "t \<noteq> []"
    and "JSON_parse H t = None \<or> JSON_parse H t = Some JNull"
  shows "context_of_response H response =
           \<lparr>visualPrompt = JStr t,
            story = JStr ''Time travel successful, but the flight log is scrambled.''\<rparr>"
  using assms by (auto simp: context_of_response_def parse_context_def str_or_def)

text \<open>
  C2, amended. When the text of the response is not empty and \<open>JSON.parse\<close> rejects it (or
  parses it to \<open>null\<close>), \<open>generateVisualPrompt\<close> returns the raw text as the visual
  description and the fixed placeholder as the narrative. Whatever the response is, it
  returns a context and does not throw.
\<close>

theorem generateVisualPrompt_degrades:
  assumes "generateContent H tr (scene_request H request) = Inr response"
  shows "(\<forall>t. response_text response = Some t \<and> t \<noteq> []
              \<and> (JSON_parse H t = None \<or> JSON_parse H t = Some JNull)
            \<longrightarrow> fst (generateVisualPrompt H request tr) =
                  Inr \<lparr>visualPrompt = JStr t,
                       story = JStr ''Time travel successful, but the flight log is scrambled.''\<rparr>)
         \<and> (\<exists>vc. fst (generateVisualPrompt H request tr) = Inr vc)"
  using assms by (simp add: generateVisualPrompt_def context_of_response_fallback)

theorem generateVisualPrompt_degrades_witness:
  "generateContent (service_host (Inr (text_response ''Sorry, I cannot help with that.'')) (Inl network_down))
       [] (scene_request
             (service_host (Inr (text_response ''Sorry, I cannot help with that.'')) (Inl network_down))
             scenario_A_request)
     = Inr (text_response ''Sorry, I cannot help with that.'')
   \<and> JSON_parse (service_host (Inr (text_response ''Sorry, I cannot help with that.'')) (Inl network_down))
        ''Sorry, I cannot help with that.'' = None
   \<and> fst (generateVisualPrompt
        (service_host (Inr (text_response ''Sorry, I cannot help with that.'')) (Inl network_down))
        scenario_A_request [])
     = Inr \<lparr>visualPrompt = JStr ''Sorry, I cannot help with that.'',
            story = JStr ''Time travel successful, but the flight log is scrambled.''\<rparr>"
proof -
  let ?t = "''Sorry, I cannot help with that.''"
  let ?H = "service_host (Inr (text_response ?t)) (Inl network_down)"
  have h: "generateContent ?H [] (scene_request ?H scenario_A_request) = Inr (text_response ?t)"
    by (simp add: service_host_def scene_request_def)
  have p: "JSON_parse ?H ?t = None"
    by (simp add: service_host_def bare_host_def JSON_parse_table_def)
  have r: "response_text (text_response ?t) = Some ?t"
    by (simp add: text_response_def)
  from generateVisualPrompt_degrades [OF h] p r h show ?thesis
    by simp
qed

text \<open>
  C2 as stated fails. The payload \<open>[]\<close> is valid JSON that is not the two-field structure,
  and an empty text is no payload at all (the adapter parses \<open>{}\<close> in its place): in both
  cases the result is the pair of per-field defaults, not the raw text and the placeholder.
\<close>

theorem generateVisualPrompt_not_raw_text_counterexample:
  "fst (generateVisualPrompt (service_host (Inr (text_response ''[]'')) (Inl network_down))
          scenario_A_request [])
     = Inr \<lparr>visualPrompt = JStr ''A historical scene.'', story = JStr ''Welcome to the past!''\<rparr>
   \<and> fst (generateVisualPrompt (service_host (Inr (text_response ''[]'')) (Inl network_down))
          scenario_A_request [])
     \<noteq> Inr \<lparr>visualPrompt = JStr ''[]'',
            story = JStr ''Time travel successful, but the flight log is scrambled.''\<rparr>
   \<and> fst (generateVisualPrompt (service_host (Inr (text_response [])) (Inl network_down))
          scenario_A_request [])
     = Inr \<lparr>visualPrompt = JStr ''A historical scene.'', story = JStr ''Welcome to the past!''\<rparr>"
  by (simp add: generateVisualPrompt_def service_host_def bare_host_def scene_request_def
      context_of_response_def parse_context_def text_response_def str_or_def
      JSON_parse_table_def js_or_def)

lemma js_or_string_or_falsy:
  "string_or_falsy v \<Longrightarrow> d \<noteq> [] \<Longrightarrow> nonempty_string (js_or v (JStr d))"
  by (cases v) (auto simp: js_or_def)

lemma js_or_falsy: "\<not> truthy v \<Longrightarrow> js_or v d = d"
  by (simp add: js_or_def)

lemma context_of_response_nonempty:
  assumes "\<forall>json. JSON_parse H (str_or (response_text response) ''{}'') = Some json
             \<longrightarrow> string_or_falsy (payload_field json ''visualPrompt'')
               \<and> string_or_falsy (payload_field json ''story'')"
  shows "nonempty_string (visualPrompt (context_of_response H response))
       \<and> nonempty_string (VisualContext.story (context_of_response H response))"
proof (cases "parse_context H response")
  case None
  then show ?thesis
    by (simp add: context_of_response_def str_or_def split: option.splits)
next
  case (Some vc)
  then obtain json vp st where
    j: "JSON_parse H (str_or (response_text response) ''{}'') = Some json"
    and vp: "js_get json ''visualPrompt'' = Some vp"
    and st: "js_get json ''story'' = Some st"
    and vc: "vc = \<lparr>visualPrompt = js_or vp (JStr ''A historical scene.''),
                   story = js_or st (JStr ''Welcome to the past!'')\<rparr>"
    by (auto simp: parse_context_def split: option.splits)
  from assms j vp st have "string_or_falsy vp" and "string_or_falsy st"
    by (auto simp: payload_field_def)
  then show ?thesis
    using Some vc by (simp add: context_of_response_def js_or_string_or_falsy)
qed

lemma context_of_response_fields:
  assumes "JSON_parse H (str_or (response_text response) ''{}'') = Some json"
    and "json \<noteq> JNull" and "json \<noteq> JUndefined"
  shows "visualPrompt (context_of_response H response) =
           (if truthy (payload_field json ''visualPrompt'')
            then payload_field json ''visualPrompt'' else JStr ''A historical scene.'')
       \<and> VisualContext.story (context_of_response H response) =
           (if truthy (payload_field json ''story'')
            then payload_field json ''story'' else JStr ''Welcome to the past!'')"
  using assms
  by (cases json)
     (simp_all add: context_of_response_def parse_context_def payload_field_def js_or_def)

lemma context_of_response_defaults:
  assumes "JSON_parse H (str_or (response_text response) ''{}'') = Some json"
    and "json \<noteq> JNull" and "json \<noteq> JUndefined"
  shows "(\<not> truthy (payload_field json ''visualPrompt'')
            \<longrightarrow> visualPrompt (context_of_response H response) = JStr ''A historical scene.'')
       \<and> (\<not> truthy (payload_field json ''story'')
            \<longrightarrow> VisualContext.story (context_of_response H response) = JStr ''Welcome to the past!'')"
  using context_of_response_fields [OF assms] by simp

text \<open>
  C10, amended. Whatever the response is, \<open>generateVisualPrompt\<close> returns a context. Its
  \<open>visualPrompt\<close> and \<open>story\<close> are both non-empty strings whenever each of the two fields
  of the parsed payload is absent, falsy or a string, as the requested schema prescribes.
  When the payload parses to a value other than \<open>null\<close>, a missing or falsy field is
  replaced by its fixed default, and a truthy field, string or not, is passed through
  unchanged.
\<close>

theorem generateVisualPrompt_nonempty_strings:
  assumes "generateContent H tr (scene_request H request) = Inr response"
  shows "\<exists>vc. fst (generateVisualPrompt H request tr) = Inr vc
           \<and> ((\<forall>json. JSON_parse H (str_or (response_text response) ''{}'') = Some json
                   \<longrightarrow> string_or_falsy (payload_field json ''visualPrompt'')
                     \<and> string_or_falsy (payload_field json ''story''))
                \<longrightarrow> nonempty_string (visualPrompt vc)
                  \<and> nonempty_string (VisualContext.story vc))
           \<and> (\<forall>json. JSON_parse H (str_or (response_text response) ''{}'') = Some json
                   \<and> json \<noteq> JNull \<and> json \<noteq> JUndefined
                 \<longrightarrow> (\<not> truthy (payload_field json ''visualPrompt'')
                        \<longrightarrow> visualPrompt vc = JStr ''A historical scene.'')
                   \<and> (\<not> truthy (payload_field json ''story'')
                        \<longrightarrow> VisualContext.story vc = JStr ''Welcome to the past!'')
                   \<and> (truthy (payload_field json ''visualPrompt'')
                        \<longrightarrow> visualPrompt vc = payload_field json ''visualPrompt'')
                   \<and> (truthy (payload_field json ''story'')
                        \<longrightarrow> VisualContext.story vc = payload_field json ''story''))"
proof -
  have "fst (generateVisualPrompt H request tr) = Inr (context_of_response H response)"
    using assms by (simp add: generateVisualPrompt_def)
  moreover have "\<forall>json. JSON_parse H (str_or (response_text response) ''{}'') = Some json
                   \<and> json \<noteq> JNull \<and> json \<noteq> JUndefined
                 \<longrightarrow> (\<not> truthy (payload_field json ''visualPrompt'')
                        \<longrightarrow> visualPrompt (context_of_response H response)
                              = JStr ''A historical scene.'')
                   \<and> (\<not> truthy (payload_field json ''story'')
                        \<longrightarrow> VisualContext.story (context_of_response H response)
                              = JStr ''Welcome to the past!'')
                   \<and> (truthy (payload_field json ''visualPrompt'')
                        \<longrightarrow> visualPrompt (context_of_response H response)
                              = payload_field json ''visualPrompt'')
                   \<and> (truthy (payload_field json ''story'')
                        \<longrightarrow> VisualContext.story (context_of_response H response)
                              = payload_field json ''story'')"
    using context_of_response_fields [of H response] by simp
  ultimately show ?thesis
    using context_of_response_nonempty [of H response] by blast
qed

theorem generateVisualPrompt_nonempty_strings_witness:
  "generateContent (service_host (Inr (text_response scene_json)) (Inl network_down)) []
       (scene_request (service_host (Inr (text_response scene_json)) (Inl network_down))
          scenario_A_request)
     = Inr (text_response scene_json)
   \<and> JSON_parse (service_host (Inr (text_response scene_json)) (Inl network_down))
        (str_or (response_text (text_response scene_json)) ''{}'')
     = Some (JObj [(''visualPrompt'', JStr ''A crowd before the fort at dawn.''),
                   (''story'', JStr ''Midnight has passed.'')])
   \<and> string_or_falsy (payload_field
        (JObj [(''visualPrompt'', JStr ''A crowd before the fort at dawn.''),
               (''story'', JStr ''Midnight has passed.'')]) ''visualPrompt'')
   \<and> string_or_falsy (payload_field
        (JObj [(''visualPrompt'', JStr ''A crowd before the fort at dawn.''),
               (''story'', JStr ''Midnight has passed.'')]) ''story'')
   \<and> fst (generateVisualPrompt
        (service_host (Inr (text_response scene_json)) (Inl network_down))
        scenario_A_request [])
     = Inr \<lparr>visualPrompt = JStr ''A crowd before the fort at dawn.'',
            story = JStr ''Midnight has passed.''\<rparr>
   \<and> nonempty_string (JStr ''A crowd before the fort at dawn.'')
   \<and> nonempty_string (JStr ''Midnight has passed.'')
   \<and> generateContent (service_host (Inr (text_response ''{}'')) (Inl network_down)) []
       (scene_request (service_host (Inr (text_response ''{}'')) (Inl network_down))
          scenario_A_request)
     = Inr (text_response ''{}'')
   \<and> JSON_parse (service_host (Inr (text_response ''{}'')) (Inl network_down))
        (str_or (response_text (text_response ''{}'')) ''{}'')
     = Some (JObj [])
   \<and> \<not> truthy (payload_field (JObj []) ''visualPrompt'')
   \<and> \<not> truthy (payload_field (JObj []) ''story'')
   \<and> fst (generateVisualPrompt
        (service_host (Inr (text_response ''{}'')) (Inl network_down))
        scenario_A_request [])
     = Inr \<lparr>visualPrompt = JStr ''A historical scene.'', story = JStr ''Welcome to the past!''\<rparr>"
proof -
  let ?H = "service_host (Inr (text_response scene_json)) (Inl network_down)"
  let ?json = "JObj [(''visualPrompt'', JStr ''A crowd before the fort at dawn.''),
                     (''story'', JStr ''Midnight has passed.'')]"
  let ?D = "service_host (Inr (text_response ''{}'')) (Inl network_down)"
  have h: "generateContent ?H [] (scene_request ?H scenario_A_request)
             = Inr (text_response scene_json)"
    by (simp add: service_host_def scene_request_def)
  have p: "JSON_parse ?H (str_or (response_text (text_response scene_json)) ''{}'') = Some ?json"
    by (simp add: service_host_def bare_host_def JSON_parse_table_def text_response_def
        str_or_def scene_json_def)
  have f: "payload_field ?json ''visualPrompt'' = JStr ''A crowd before the fort at dawn.''"
    "payload_field ?json ''story'' = JStr ''Midnight has passed.''"
    by (simp_all add: payload_field_def)
  have hd: "generateContent ?D [] (scene_request ?D scenario_A_request)
             = Inr (text_response ''{}'')"
    by (simp add: service_host_def scene_request_def)
  have pd: "JSON_parse ?D (str_or (response_text (text_response ''{}'')) ''{}'') = Some (JObj [])"
    by (simp add: service_host_def bare_host_def JSON_parse_table_def text_response_def
        str_or_def)
  have fd: "payload_field (JObj []) ''visualPrompt'' = JUndefined"
    "payload_field (JObj []) ''story'' = JUndefined"
    by (simp_all add: payload_field_def)
  from generateVisualPrompt_nonempty_strings [OF h] p f
  have 1: "fst (generateVisualPrompt ?H scenario_A_request [])
             = Inr \<lparr>visualPrompt = JStr ''A crowd before the fort at dawn.'',
                    story = JStr ''Midnight has passed.''\<rparr>"
    by auto
  from generateVisualPrompt_nonempty_strings [OF hd] pd fd
  have 2: "fst (generateVisualPrompt ?D scenario_A_request [])
             = Inr \<lparr>visualPrompt = JStr ''A historical scene.'',
                    story = JStr ''Welcome to the past!''\<rparr>"
    by auto
  from h p f hd pd fd 1 2 show ?thesis
    by simp
qed

text \<open>
  C10 as stated fails: a truthy field value that is not a string passes through
  unchanged. For the payload below the scene description is an empty array and the
  narrative a number.
\<close>

theorem generateVisualPrompt_non_string_counterexample:
  \<open>fst (generateVisualPrompt
          (service_host (Inr (text_response ''{"visualPrompt":[],"story":7}'')) (Inl network_down))
          scenario_A_request [])
     = Inr \<lparr>visualPrompt = JArr [], story = JNum (Fin 7)\<rparr>
   \<and> \<not> nonempty_string (JArr [])
   \<and> \<not> nonempty_string (JNum (Fin 7))\<close>
  by (simp add: generateVisualPrompt_def service_host_def bare_host_def scene_request_def
      context_of_response_def parse_context_def text_response_def str_or_def
      JSON_parse_table_def js_or_def)

subsection \<open>The orchestrator\<close>

text \<open>The five ways the credential check ends.\<close>

lemma ensureApiKey_cases:
  obtains
    (absent) "aistudio H = None" "ensureApiKey H tr = (Inr False, tr)"
  | (check_throws) a e where "aistudio H = Some a" "hasSelectedApiKey a tr = Inl e"
      "ensureApiKey H tr = (Inl e, tr @ [HasSelectedApiKey])"
  | (selected) a where "aistudio H = Some a" "hasSelectedApiKey a tr = Inr True"
      "ensureApiKey H tr = (Inr True, tr @ [HasSelectedApiKey])"
  | (picker_throws) a e where "aistudio H = Some a" "hasSelectedApiKey a tr = Inr False"
      "openSelectKey a (tr @ [HasSelectedApiKey]) = Inl e"
      "ensureApiKey H tr = (Inl e, tr @ [HasSelectedApiKey, OpenSelectKey])"
  | (picked) a where "aistudio H = Some a" "hasSelectedApiKey a tr = Inr False"
      "openSelectKey a (tr @ [HasSelectedApiKey]) = Inr ()"
      "ensureApiKey H tr =
         (hasSelectedApiKey a (tr @ [HasSelectedApiKey, OpenSelectKey]),
          tr @ [HasSelectedApiKey, OpenSelectKey, HasSelectedApiKey])"
proof (cases "aistudio H")
  case None
  then show ?thesis using absent by (simp add: ensureApiKey_def)
next
  case (Some a)
  show ?thesis
  proof (cases "hasSelectedApiKey a tr")
    case (Inl e)
    with Some show ?thesis using check_throws by (simp add: ensureApiKey_def)
  next
    case (Inr hasKey)
    show ?thesis
    proof (cases hasKey)
      case True
      with Some Inr show ?thesis using selected by (simp add: ensureApiKey_def)
    next
      case False
      show ?thesis
      proof (cases "openSelectKey a (tr @ [HasSelectedApiKey])")
        case (Inl e)
        with Some Inr False show ?thesis using picker_throws by (simp add: ensureApiKey_def)
      next
        case (Inr u)
        with Some \<open>hasSelectedApiKey a tr = Inr hasKey\<close> False show ?thesis
          using picked by (simp add: ensureApiKey_def)
      qed
    qed
  qed
qed

lemma ensureApiKey_trace:
  "\<exists>ks. snd (ensureApiKey H tr) = tr @ ks \<and> list_all is_key_call ks"
  by (cases H tr rule: ensureApiKey_cases) auto

lemma generateVisualPrompt_trace:
  "snd (generateVisualPrompt H request tr) = tr @ [GenerateContent (scene_request H request)]"
  by (simp add: generateVisualPrompt_def split: sum.splits)

lemma generateSnapshot_trace:
  "snd (generateSnapshot H request ctx tr) = tr @ [GenerateContent (image_request H request ctx)]"
  by (simp add: generateSnapshot_def split: sum.splits)

text \<open>\<open>js_includes\<close> is the occurrence of a contiguous run.\<close>

lemma is_prefix_iff: "is_prefix t s \<longleftrightarrow> (\<exists>q. s = t @ q)"
  by (induction t s rule: is_prefix.induct) auto

lemma js_includes_iff: "js_includes s t \<longleftrightarrow> (\<exists>p q. s = p @ t @ q)"
proof (induction s)
  case Nil
  then show ?case by simp
next
  case (Cons c s)
  have "(\<exists>p q. c # s = p @ t @ q) \<longleftrightarrow> (\<exists>q. c # s = t @ q) \<or> (\<exists>p q. s = p @ t @ q)"
  proof
    assume "\<exists>p q. c # s = p @ t @ q"
    then obtain p q where pq: "c # s = p @ t @ q" by blast
    show "(\<exists>q. c # s = t @ q) \<or> (\<exists>p q. s = p @ t @ q)"
    proof (cases p)
      case Nil
      with pq show ?thesis by auto
    next
      case (Cons d p')
      with pq have "s = p' @ t @ q" by simp
      then show ?thesis by blast
    qed
  next
    assume "(\<exists>q. c # s = t @ q) \<or> (\<exists>p q. s = p @ t @ q)"
    then show "\<exists>p q. c # s = p @ t @ q"
    proof
      assume "\<exists>q. c # s = t @ q"
      then obtain q where "c # s = [] @ t @ q" by auto
      then show ?thesis by blast
    next
      assume "\<exists>p q. s = p @ t @ q"
      then obtain p q where "c # s = (c # p) @ t @ q" by auto
      then show ?thesis by blast
    qed
  qed
  with Cons show ?case
    by (simp add: is_prefix_iff)
qed

text \<open>The \<open>catch\<close> block sets the error to the shown value, or throws when there is none.\<close>

lemma handleGenerate_catch_shown:
  "handleGenerate_catch e s = map_option (\<lambda>v. s\<lparr>error := Some v\<rparr>) (shown_error e)"
  by (simp add: handleGenerate_catch_def shown_error_def js_or_def split: option.splits)

lemma handleGenerate_no_key:
  assumes "ensureApiKey H tr = (Inr False, tr1)"
  shows "handleGenerate H (s, tr) =
           (Returned,
            s\<lparr>error := Some (JStr ''API Key is required to use the Time Machine.''),
              result := None, isLoading := False, loadingStep := []\<rparr>, tr1)"
  using assms by (simp add: handleGenerate_def handleGenerate_try_def)

lemma handleGenerate_key_throws:
  assumes "ensureApiKey H tr = (Inl e, tr1)"
  shows "handleGenerate H (s, tr) =
           (if shown_error e = None then Threw else Returned,
            s\<lparr>error := shown_error e, result := None,
              isLoading := False, loadingStep := []\<rparr>, tr1)"
  using assms
  by (auto simp: handleGenerate_def handleGenerate_try_def handleGenerate_catch_shown)

lemma handleGenerate_scene_throws:
  assumes "ensureApiKey H tr = (Inr True, tr1)"
    and "generateVisualPrompt H (build_request s) tr1 = (Inl e, tr2)"
  shows "handleGenerate H (s, tr) =
           (if shown_error e = None then Threw else Returned,
            s\<lparr>error := shown_error e, result := None,
              isLoading := False, loadingStep := []\<rparr>, tr2)"
  using assms
  by (auto simp: handleGenerate_def handleGenerate_try_def handleGenerate_catch_shown
      build_request_def)

lemma handleGenerate_image_throws:
  assumes "ensureApiKey H tr = (Inr True, tr1)"
    and "generateVisualPrompt H (build_request s) tr1 = (Inr vc, tr2)"
    and "generateSnapshot H (build_request s) vc tr2 = (Inl e, tr3)"
  shows "handleGenerate H (s, tr) =
           (if shown_error e = None then Threw else Returned,
            s\<lparr>error := shown_error e, result := None,
              isLoading := False, loadingStep := []\<rparr>, tr3)"
  using assms
  by (auto simp: handleGenerate_def handleGenerate_try_def handleGenerate_catch_shown
      build_request_def)

lemma handleGenerate_success:
  assumes "ensureApiKey H tr = (Inr True, tr1)"
    and "generateVisualPrompt H (build_request s) tr1 = (Inr vc, tr2)"
    and "generateSnapshot H (build_request s) vc tr2 = (Inr img, tr3)"
  shows "handleGenerate H (s, tr) =
           (Returned,
            s\<lparr>error := None, result := Some img, isLoading := False, loadingStep := []\<rparr>, tr3)"
  using assms by (simp add: handleGenerate_def handleGenerate_try_def build_request_def)

text \<open>The five ways a run ends.\<close>

lemma handleGenerate_cases:
  obtains
    (no_key) tr1 where "ensureApiKey H tr = (Inr False, tr1)"
  | (key_throws) e tr1 where "ensureApiKey H tr = (Inl e, tr1)"
  | (scene_throws) tr1 e tr2 where "ensureApiKey H tr = (Inr True, tr1)"
      "generateVisualPrompt H (build_request s) tr1 = (Inl e, tr2)"
  | (image_throws) tr1 vc tr2 e tr3 where "ensureApiKey H tr = (Inr True, tr1)"
      "generateVisualPrompt H (build_request s) tr1 = (Inr vc, tr2)"
      "generateSnapshot H (build_request s) vc tr2 = (Inl e, tr3)"
  | (success) tr1 vc tr2 img tr3 where "ensureApiKey H tr = (Inr True, tr1)"
      "generateVisualPrompt H (build_request s) tr1 = (Inr vc, tr2)"
      "generateSnapshot H (build_request s) vc tr2 = (Inr img, tr3)"
proof -
  obtain k tr1 where k: "ensureApiKey H tr = (k, tr1)"
    by (cases "ensureApiKey H tr")
  show ?thesis
  proof (cases k)
    case (Inl e)
    with k show ?thesis using key_throws by simp
  next
    case (Inr hasKey)
    show ?thesis
    proof (cases hasKey)
      case False
      with k Inr show ?thesis using no_key by simp
    next
      case True
      obtain v tr2 where v: "generateVisualPrompt H (build_request s) tr1 = (v, tr2)"
        by (cases "generateVisualPrompt H (build_request s) tr1")
      show ?thesis
      proof (cases v)
        case (Inl e)
        with k \<open>k = Inr hasKey\<close> True v show ?thesis using scene_throws by simp
      next
        case (Inr vc)
        obtain g tr3 where g: "generateSnapshot H (build_request s) vc tr2 = (g, tr3)"
          by (cases "generateSnapshot H (build_request s) vc tr2")
        show ?thesis
        proof (cases g)
          case (Inl e)
          with k \<open>k = Inr hasKey\<close> True v Inr g show ?thesis using image_throws by simp
        next
          case (Inr img)
          with k \<open>k = Inr hasKey\<close> True v \<open>v = Inr vc\<close> g show ?thesis using success by simp
        qed
      qed
    qed
  qed
qed

text \<open>The outcome of a run, from the outcomes of its steps.\<close>

lemma handleGenerate_outcome:
  "handleGenerate H (s, tr) =
     (case run_thrown H s tr of
        None \<Rightarrow> Returned
      | Some e \<Rightarrow> if shown_error e = None then Threw else Returned,
      s\<lparr>error := (case run_thrown H s tr of
                     Some e \<Rightarrow> shown_error e
                   | None \<Rightarrow>
                       if credential_step H tr = Inr False
                       then Some (JStr ''API Key is required to use the Time Machine.'')
                       else None),
        result := (case image_step H s tr of Some (Inr img) \<Rightarrow> Some img | _ \<Rightarrow> None),
        isLoading := False, loadingStep := []\<rparr>,
      snd (snd (handleGenerate H (s, tr))))"
proof (cases rule: handleGenerate_cases [where H = H and tr = tr and s = s])
  case (no_key tr1)
  then show ?thesis
    by (simp add: handleGenerate_no_key run_thrown_def credential_step_def scene_step_def
        image_step_def)
next
  case (key_throws e tr1)
  then show ?thesis
    by (simp add: handleGenerate_key_throws run_thrown_def credential_step_def scene_step_def
        image_step_def)
next
  case (scene_throws tr1 e tr2)
  then show ?thesis
    by (simp add: handleGenerate_scene_throws run_thrown_def credential_step_def scene_step_def
        image_step_def)
next
  case (image_throws tr1 vc tr2 e tr3)
  then show ?thesis
    by (simp add: handleGenerate_image_throws run_thrown_def credential_step_def scene_step_def
        image_step_def)
next
  case (success tr1 vc tr2 img tr3)
  then show ?thesis
    by (simp add: handleGenerate_success run_thrown_def credential_step_def scene_step_def
        image_step_def)
qed

lemma steps_ordered:
  "(scene_step H s tr \<noteq> None \<longrightarrow> credential_step H tr = Inr True)
   \<and> (image_step H s tr \<noteq> None \<longrightarrow> (\<exists>vc. scene_step H s tr = Some (Inr vc)))"
  by (cases rule: handleGenerate_cases [where H = H and tr = tr and s = s])
     (simp_all add: credential_step_def scene_step_def image_step_def)

lemma run_thrown_iff:
  "run_thrown H s tr = Some e \<longleftrightarrow>
     credential_step H tr = Inl e \<or> scene_step H s tr = Some (Inl e)
       \<or> image_step H s tr = Some (Inl e)"
  using steps_ordered [of H s tr]
  by (auto simp: run_thrown_def split: sum.splits option.splits)

lemma run_thrown_no_image:
  "run_thrown H s tr \<noteq> None \<Longrightarrow> \<forall>img. image_step H s tr \<noteq> Some (Inr img)"
  using steps_ordered [of H s tr]
  by (auto simp: run_thrown_def split: sum.splits option.splits)

text \<open>What the \<open>catch\<close> block shows, case by case on the thrown value.\<close>

lemma shown_error_carries:
  assumes "carries_message e"
  shows "shown_error e =
     Some (JStr
       (if \<exists>t p q. js_get e ''message'' = Some (JStr t)
              \<and> t = p @ ''Requested entity was not found'' @ q
        then ''API Key validation failed. Please try selecting your key again.''
        else (case js_get e ''message'' of
                Some (JStr t) \<Rightarrow>
                  if t = [] then ''Failed to generate time travel snapshot.'' else t
              | _ \<Rightarrow> ''Failed to generate time travel snapshot.'')))"
proof -
  define N where "N = ''Requested entity was not found''"
  have N: "N \<noteq> []"
    by (simp add: N_def)
  from assms obtain m where m: "js_get e ''message'' = Some m" and sf: "string_or_falsy m"
    by (auto simp: carries_message_def split: option.splits)
  have se: "shown_error e =
     (if truthy m then
        (case includes_call m N of
           None \<Rightarrow> None
         | Some found \<Rightarrow>
             Some (if found
                   then JStr ''API Key validation failed. Please try selecting your key again.''
                   else m))
      else Some (JStr ''Failed to generate time travel snapshot.''))"
    unfolding shown_error_def N_def m by simp
  have "shown_error e =
     Some (JStr
       (if \<exists>t p q. js_get e ''message'' = Some (JStr t) \<and> t = p @ N @ q
        then ''API Key validation failed. Please try selecting your key again.''
        else (case js_get e ''message'' of
                Some (JStr t) \<Rightarrow>
                  if t = [] then ''Failed to generate time travel snapshot.'' else t
              | _ \<Rightarrow> ''Failed to generate time travel snapshot.'')))"
  proof (cases m)
    case (JStr t)
    have inc: "(\<exists>t' p q. js_get e ''message'' = Some (JStr t') \<and> t' = p @ N @ q)
                 \<longleftrightarrow> js_includes t N"
      using m JStr by (simp add: js_includes_iff)
    have "js_includes t N \<Longrightarrow> t \<noteq> []"
      using N by (cases t) auto
    then show ?thesis
      unfolding inc se using m JStr by (auto simp: includes_call_def)
  next
    case JUndefined
    with m show ?thesis unfolding se by simp
  next
    case JNull
    with m show ?thesis unfolding se by simp
  next
    case (JBool b)
    with m sf show ?thesis unfolding se by simp
  next
    case (JNum n)
    with m sf show ?thesis unfolding se by auto
  next
    case (JArr xs)
    with sf show ?thesis by simp
  next
    case (JObj kvs)
    with sf show ?thesis by simp
  qed
  then show ?thesis
    unfolding N_def .
qed

lemma shown_error_nullish:
  "shown_error JUndefined = None" "shown_error JNull = None"
  by (simp_all add: shown_error_def)

lemma shown_error_array:
  "js_get e ''message'' = Some (JArr xs) \<Longrightarrow>
   shown_error e =
     Some (if JStr ''Requested entity was not found'' \<in> set xs
           then JStr ''API Key validation failed. Please try selecting your key again.''
           else JArr xs)"
  by (simp add: shown_error_def includes_call_def)

lemma shown_error_no_includes:
  assumes "js_get e ''message'' = Some m" and "truthy m"
    and "m = JBool b \<or> m = JNum n \<or> m = JObj kvs"
  shows "shown_error e = None"
  using assms by (auto simp: shown_error_def includes_call_def)

text \<open>
  When the \<open>catch\<close> block throws, no message is set and the handler ends by throwing,
  after the \<open>finally\<close> block.
\<close>

lemma handleGenerate_catch_throws:
  assumes "run_thrown H s tr = Some e" and "shown_error e = None"
  shows "fst (handleGenerate H (s, tr)) = Threw
       \<and> fst (snd (handleGenerate H (s, tr))) =
           s\<lparr>error := None, result := None, isLoading := False, loadingStep := []\<rparr>"
proof -
  from assms(1) have "\<forall>img. image_step H s tr \<noteq> Some (Inr img)"
    using run_thrown_no_image [of H s tr] by simp
  then have "(case image_step H s tr of Some (Inr img) \<Rightarrow> Some img | _ \<Rightarrow> None) = None"
    by (auto split: option.splits sum.splits)
  then show ?thesis
    using assms by (subst (1 2) handleGenerate_outcome) simp
qed

text \<open>
  C1, amended. A run changes nothing of the state but the result, the error message and
  the loading indicators, which it resets. When the run fails (the credential check
  answers false or throws, the scene step throws or the image step throws) the result
  is empty after the run, whatever it was before, since the run clears it on entry. The
  error message is then set when the credential is unavailable and whenever the thrown
  value carries a message. A result is published exactly when the image step returns an
  image, and then no error message is shown and the handler returns normally.
\<close>

theorem handleGenerate_publishes_only_on_completion:
  assumes "handleGenerate H (s, tr) = (c, s', tr')"
  shows "s' = s\<lparr>result := result s', error := error s', isLoading := False, loadingStep := []\<rparr>
       \<and> (credential_step H tr = Inr False \<longrightarrow> result s' = None \<and> error s' \<noteq> None)
       \<and> (\<forall>e. credential_step H tr = Inl e
              \<longrightarrow> result s' = None \<and> (carries_message e \<longrightarrow> error s' \<noteq> None))
       \<and> (\<forall>e. scene_step H s tr = Some (Inl e)
              \<longrightarrow> result s' = None \<and> (carries_message e \<longrightarrow> error s' \<noteq> None))
       \<and> (\<forall>e. image_step H s tr = Some (Inl e)
              \<longrightarrow> result s' = None \<and> (carries_message e \<longrightarrow> error s' \<noteq> None))
       \<and> (\<forall>img. result s' = Some img \<longleftrightarrow> image_step H s tr = Some (Inr img))
       \<and> (result s' \<noteq> None \<longrightarrow> error s' = None \<and> c = Returned)"
proof -
  define E where "E = (case run_thrown H s tr of
                     Some e \<Rightarrow> shown_error e
                   | None \<Rightarrow>
                       if credential_step H tr = Inr False
                       then Some (JStr ''API Key is required to use the Time Machine.'')
                       else None)"
  define R where "R = (case image_step H s tr of Some (Inr img) \<Rightarrow> Some img | _ \<Rightarrow> None)"
  define C where "C = (case run_thrown H s tr of
                         None \<Rightarrow> Returned
                       | Some e \<Rightarrow> if shown_error e = None then Threw else Returned)"
  from assms handleGenerate_outcome [of H s tr]
  have s': "s' = s\<lparr>error := E, result := R, isLoading := False, loadingStep := []\<rparr>"
    and c: "c = C"
    by (simp_all add: E_def R_def C_def)
  have r: "result s' = R" and e: "error s' = E"
    by (simp_all add: s')
  have frame: "s' = s\<lparr>result := result s', error := error s', isLoading := False, loadingStep := []\<rparr>"
    by (simp add: s')
  have thrown: "credential_step H tr = Inl x \<or> scene_step H s tr = Some (Inl x)
                  \<or> image_step H s tr = Some (Inl x)
                \<Longrightarrow> R = None \<and> (carries_message x \<longrightarrow> E \<noteq> None)" for x
  proof -
    assume "credential_step H tr = Inl x \<or> scene_step H s tr = Some (Inl x)
              \<or> image_step H s tr = Some (Inl x)"
    then have t: "run_thrown H s tr = Some x"
      by (simp add: run_thrown_iff)
    then have "\<forall>img. image_step H s tr \<noteq> Some (Inr img)"
      using run_thrown_no_image [of H s tr] by simp
    then have "R = None"
      by (auto simp: R_def split: option.splits sum.splits)
    moreover have "carries_message x \<longrightarrow> E \<noteq> None"
      using t by (simp add: E_def shown_error_carries)
    ultimately show ?thesis by simp
  qed
  have c0: "credential_step H tr = Inr False \<longrightarrow> result s' = None \<and> error s' \<noteq> None"
    using steps_ordered [of H s tr] unfolding r e R_def E_def run_thrown_def
    by (auto split: sum.splits option.splits)
  have c1: "\<forall>x. credential_step H tr = Inl x
              \<longrightarrow> result s' = None \<and> (carries_message x \<longrightarrow> error s' \<noteq> None)"
    using thrown unfolding r e by blast
  have c2: "\<forall>x. scene_step H s tr = Some (Inl x)
              \<longrightarrow> result s' = None \<and> (carries_message x \<longrightarrow> error s' \<noteq> None)"
    using thrown unfolding r e by blast
  have c3: "\<forall>x. image_step H s tr = Some (Inl x)
              \<longrightarrow> result s' = None \<and> (carries_message x \<longrightarrow> error s' \<noteq> None)"
    using thrown unfolding r e by blast
  have c4: "\<forall>img. result s' = Some img \<longleftrightarrow> image_step H s tr = Some (Inr img)"
    unfolding r R_def by (auto split: sum.splits option.splits)
  have c5: "result s' \<noteq> None \<longrightarrow> error s' = None \<and> c = Returned"
    using steps_ordered [of H s tr] unfolding r e c R_def E_def C_def run_thrown_def
    by (auto split: sum.splits option.splits)
  from frame c0 c1 c2 c3 c4 c5 show ?thesis
    by blast
qed

text \<open>The example hosts, evaluated.\<close>

lemma service_host_key:
  "ensureApiKey (service_host a b) tr = (Inr True, tr @ [HasSelectedApiKey])"
  by (simp add: ensureApiKey_def service_host_def key_selected_def)

lemma service_host_scene_answer:
  "generateContent (service_host a b) tr (scene_request H rq) = a"
  by (simp add: service_host_def scene_request_def)

lemma service_host_image_answer:
  "generateContent (service_host a b) tr (image_request H rq vc) = b"
  by (simp add: service_host_def image_request_def)

lemma service_host_scene:
  "generateVisualPrompt (service_host a b) rq tr =
     (case a of
        Inl e \<Rightarrow> Inl e
      | Inr r \<Rightarrow> Inr (context_of_response (service_host a b) r),
      tr @ [GenerateContent (scene_request (service_host a b) rq)])"
  by (cases a) (simp_all add: generateVisualPrompt_def service_host_scene_answer)

lemma service_host_image:
  "generateSnapshot (service_host a b) rq vc tr =
     (case b of
        Inl e \<Rightarrow> Inl e
      | Inr r \<Rightarrow> snapshot_of_response (service_host a b) rq vc r,
      tr @ [GenerateContent (image_request (service_host a b) rq vc)])"
  by (cases b) (simp_all add: generateSnapshot_def service_host_image_answer)

lemma snapshot_of_no_parts:
  "snapshot_of_response H rq vc (parts_response []) = Inl no_image_error"
  by (simp add: snapshot_of_response_def parts_response_def response_parts_def)

lemma scene_step_service_host:
  "scene_step (service_host a b) s tr =
     Some (case a of Inl e \<Rightarrow> Inl e | Inr r \<Rightarrow> Inr (context_of_response (service_host a b) r))"
  by (simp add: scene_step_def service_host_key service_host_scene)

lemma image_step_service_host:
  "image_step (service_host (Inr r) b) s tr =
     Some (case b of
             Inl e \<Rightarrow> Inl e
           | Inr r' \<Rightarrow>
               snapshot_of_response (service_host (Inr r) b) (build_request s)
                 (context_of_response (service_host (Inr r) b) r) r')"
  by (simp add: image_step_def service_host_key service_host_scene service_host_image)

lemma image_step_not_reached:
  "image_step (service_host (Inl e) b) s tr = None"
  by (simp add: image_step_def service_host_key service_host_scene)

lemma example_errors_carry_message:
  "carries_message no_image_error" "carries_message entity_not_found"
  "carries_message no_message" "carries_message network_down"
  by (simp_all add: carries_message_def no_image_error_def entity_not_found_def no_message_def
      network_down_def js_Error_def)

lemma shown_error_no_image:
  "shown_error no_image_error = Some (JStr ''No image data received from API.'')"
  by (simp add: shown_error_def includes_call_def no_image_error_def js_Error_def)

lemma shown_error_entity:
  "shown_error entity_not_found =
     Some (JStr ''API Key validation failed. Please try selecting your key again.'')"
  by (simp add: shown_error_def includes_call_def entity_not_found_def js_Error_def)

lemma shown_error_no_message:
  "shown_error no_message = Some (JStr ''Failed to generate time travel snapshot.'')"
  by (simp add: shown_error_def no_message_def)

theorem handleGenerate_publishes_only_on_completion_witness:
  "credential_step bare_host [] = Inr False
   \<and> result (fst (snd (handleGenerate bare_host
        (scenario_A_state\<lparr>result := Some earlier_image\<rparr>, [])))) = None
   \<and> error (fst (snd (handleGenerate bare_host
        (scenario_A_state\<lparr>result := Some earlier_image\<rparr>, [])))) \<noteq> None
   \<and> image_step (service_host (Inr (text_response scene_json)) (Inr (parts_response [])))
        scenario_A_state [] = Some (Inl no_image_error)
   \<and> carries_message no_image_error
   \<and> result (fst (snd (handleGenerate
        (service_host (Inr (text_response scene_json)) (Inr (parts_response [])))
        (scenario_A_state, [])))) = None
   \<and> error (fst (snd (handleGenerate
        (service_host (Inr (text_response scene_json)) (Inr (parts_response [])))
        (scenario_A_state, [])))) \<noteq> None
   \<and> scene_step (service_host (Inl JUndefined) (Inl network_down)) scenario_A_state []
        = Some (Inl JUndefined)
   \<and> result (fst (snd (handleGenerate (service_host (Inl JUndefined) (Inl network_down))
        (scenario_A_state\<lparr>result := Some earlier_image\<rparr>, [])))) = None"
proof -
  let ?s = "scenario_A_state\<lparr>result := Some earlier_image\<rparr>"
  let ?H = "service_host (Inr (text_response scene_json)) (Inr (parts_response []))"
  let ?U = "service_host (Inl JUndefined) (Inl network_down)"
  have a: "credential_step bare_host [] = Inr False"
    by (simp add: credential_step_def ensureApiKey_def bare_host_def)
  have b: "image_step ?H scenario_A_state [] = Some (Inl no_image_error)"
    by (simp add: image_step_service_host snapshot_of_no_parts)
  have u: "scene_step ?U s [] = Some (Inl JUndefined)" for s
    by (simp add: scene_step_service_host)
  have pair: "handleGenerate H w =
                (fst (handleGenerate H w), fst (snd (handleGenerate H w)),
                 snd (snd (handleGenerate H w)))" for H w
    by simp
  from handleGenerate_publishes_only_on_completion [OF pair [of bare_host "(?s, [])"]]
    handleGenerate_publishes_only_on_completion [OF pair [of ?H "(scenario_A_state, [])"]]
    handleGenerate_publishes_only_on_completion [OF pair [of ?U "(?s, [])"]]
    a b u example_errors_carry_message(1)
  show ?thesis
    by simp
qed

text \<open>
  C1 as stated fails: a failing run does not leave the earlier result in place. In
  scenario C (the image response has an empty list of parts) and when the credential is
  missing, a state that held a result holds none after the run.
\<close>

theorem handleGenerate_clears_prior_result_counterexample:
  "result (scenario_A_state\<lparr>result := Some earlier_image\<rparr>) = Some earlier_image
   \<and> fst (snd (handleGenerate
          (service_host (Inr (text_response scene_json)) (Inr (parts_response [])))
          (scenario_A_state\<lparr>result := Some earlier_image\<rparr>, [])))
     = scenario_A_state\<lparr>result := None,
                         error := Some (JStr ''No image data received from API.'')\<rparr>
   \<and> fst (snd (handleGenerate bare_host (scenario_A_state\<lparr>result := Some earlier_image\<rparr>, [])))
     = scenario_A_state\<lparr>result := None,
                         error := Some (JStr ''API Key is required to use the Time Machine.'')\<rparr>"
proof -
  let ?s = "scenario_A_state\<lparr>result := Some earlier_image\<rparr>"
  let ?H = "service_host (Inr (text_response scene_json)) (Inr (parts_response []))"
  have k: "ensureApiKey ?H [] = (Inr True, [HasSelectedApiKey])"
    by (simp add: service_host_key)
  have v: "generateVisualPrompt ?H (build_request ?s) [HasSelectedApiKey] =
             (Inr (context_of_response ?H (text_response scene_json)),
              [HasSelectedApiKey, GenerateContent (scene_request ?H (build_request ?s))])"
    by (simp add: service_host_scene)
  have g: "generateSnapshot ?H (build_request ?s)
             (context_of_response ?H (text_response scene_json))
             [HasSelectedApiKey, GenerateContent (scene_request ?H (build_request ?s))] =
             (Inl no_image_error,
              [HasSelectedApiKey, GenerateContent (scene_request ?H (build_request ?s)),
               GenerateContent (image_request ?H (build_request ?s)
                  (context_of_response ?H (text_response scene_json)))])"
    by (simp add: service_host_image snapshot_of_no_parts)
  note handleGenerate_image_throws [OF k v g]
  moreover have "handleGenerate bare_host (?s, []) =
          (Returned,
           ?s\<lparr>error := Some (JStr ''API Key is required to use the Time Machine.''),
              result := None, isLoading := False, loadingStep := []\<rparr>, [])"
    by (rule handleGenerate_no_key) (simp add: ensureApiKey_def bare_host_def)
  ultimately show ?thesis
    by (simp add: shown_error_no_image scenario_A_state_def initial_state_def)
qed

text \<open>
  C5, amended. Whichever step of the run throws (the credential check, the scene step
  or the image step), if the thrown value carries a message then the handler returns
  normally and the message shown is the reselect-credential message when the thrown
  value's message contains \<open>Requested entity was not found\<close>; otherwise it is the thrown
  value's own message, or the generic fallback when that is absent or empty.
\<close>

theorem handleGenerate_error_message:
  assumes "handleGenerate H (s, tr) = (c, s', tr')"
    and "credential_step H tr = Inl e \<or> scene_step H s tr = Some (Inl e)
           \<or> image_step H s tr = Some (Inl e)"
    and "carries_message e"
  shows "c = Returned
       \<and> error s' =
     Some (JStr
       (if \<exists>t p q. js_get e ''message'' = Some (JStr t)
              \<and> t = p @ ''Requested entity was not found'' @ q
        then ''API Key validation failed. Please try selecting your key again.''
        else (case js_get e ''message'' of
                Some (JStr t) \<Rightarrow>
                  if t = [] then ''Failed to generate time travel snapshot.'' else t
              | _ \<Rightarrow> ''Failed to generate time travel snapshot.'')))"
proof -
  from assms(2) have t: "run_thrown H s tr = Some e"
    by (simp add: run_thrown_iff)
  from assms(3) obtain v where v: "shown_error e = Some v"
    using shown_error_carries [of e] by simp
  from assms(1) handleGenerate_outcome [of H s tr] t v
  have "c = Returned" and "error s' = shown_error e"
    by auto
  then show ?thesis
    by (simp only: shown_error_carries [OF assms(3)] simp_thms)
qed

theorem handleGenerate_error_message_witness:
  "image_step (service_host (Inr (text_response scene_json)) (Inr (parts_response [])))
       scenario_A_state [] = Some (Inl no_image_error)
   \<and> carries_message no_image_error
   \<and> error (fst (snd (handleGenerate
        (service_host (Inr (text_response scene_json)) (Inr (parts_response [])))
        (scenario_A_state, [])))) = Some (JStr ''No image data received from API.'')
   \<and> image_step (service_host (Inr (text_response scene_json)) (Inl entity_not_found))
       scenario_A_state [] = Some (Inl entity_not_found)
   \<and> carries_message entity_not_found
   \<and> error (fst (snd (handleGenerate
        (service_host (Inr (text_response scene_json)) (Inl entity_not_found))
        (scenario_A_state, []))))
       = Some (JStr ''API Key validation failed. Please try selecting your key again.'')
   \<and> scene_step (service_host (Inl no_message) (Inl network_down)) scenario_A_state []
       = Some (Inl no_message)
   \<and> carries_message no_message
   \<and> error (fst (snd (handleGenerate (service_host (Inl no_message) (Inl network_down))
        (scenario_A_state, [])))) = Some (JStr ''Failed to generate time travel snapshot.'')
   \<and> fst (handleGenerate (service_host (Inl no_message) (Inl network_down))
        (scenario_A_state, [])) = Returned"
proof -
  let ?C = "service_host (Inr (text_response scene_json)) (Inr (parts_response []))"
  let ?E = "service_host (Inr (text_response scene_json)) (Inl entity_not_found)"
  let ?N = "service_host (Inl no_message) (Inl network_down)"
  have c: "image_step ?C scenario_A_state [] = Some (Inl no_image_error)"
    by (simp add: image_step_service_host snapshot_of_no_parts)
  have e: "image_step ?E scenario_A_state [] = Some (Inl entity_not_found)"
    by (simp add: image_step_service_host)
  have n: "scene_step ?N scenario_A_state [] = Some (Inl no_message)"
    by (simp add: scene_step_service_host)
  note m = example_errors_carry_message
  have pair: "handleGenerate H w =
                (fst (handleGenerate H w), fst (snd (handleGenerate H w)),
                 snd (snd (handleGenerate H w)))" for H w
    by simp
  have "error (fst (snd (handleGenerate ?C (scenario_A_state, [])))) = shown_error no_image_error"
    using handleGenerate_error_message
        [where H = ?C and s = scenario_A_state and tr = "[]" and e = no_image_error, OF pair]
      c m(1)
    by (simp only: shown_error_carries [OF m(1), symmetric] simp_thms)
  moreover
  have "error (fst (snd (handleGenerate ?E (scenario_A_state, [])))) = shown_error entity_not_found"
    using handleGenerate_error_message
        [where H = ?E and s = scenario_A_state and tr = "[]" and e = entity_not_found, OF pair]
      e m(2)
    by (simp only: shown_error_carries [OF m(2), symmetric] simp_thms)
  moreover
  have "error (fst (snd (handleGenerate ?N (scenario_A_state, [])))) = shown_error no_message
        \<and> fst (handleGenerate ?N (scenario_A_state, [])) = Returned"
    using handleGenerate_error_message
        [where H = ?N and s = scenario_A_state and tr = "[]" and e = no_message, OF pair]
      n m(3)
    by (simp only: shown_error_carries [OF m(3), symmetric] simp_thms)
  ultimately show ?thesis
    using c e n m
    by (simp only: shown_error_no_image shown_error_entity shown_error_no_message simp_thms)
qed

text \<open>
  C5 as stated fails: the remapping is not confined to the image step. When the scene
  step throws the entity-not-found error, the image step is never reached and the
  reselect-credential message is shown all the same.
\<close>

theorem handleGenerate_remaps_scene_error_counterexample:
  "scene_step (service_host (Inl entity_not_found) (Inl network_down)) scenario_A_state []
     = Some (Inl entity_not_found)
   \<and> image_step (service_host (Inl entity_not_found) (Inl network_down)) scenario_A_state []
     = None
   \<and> error (fst (snd (handleGenerate (service_host (Inl entity_not_found) (Inl network_down))
        (scenario_A_state, []))))
     = Some (JStr ''API Key validation failed. Please try selecting your key again.'')"
proof -
  let ?H = "service_host (Inl entity_not_found) (Inl network_down)"
  have k: "ensureApiKey ?H [] = (Inr True, [HasSelectedApiKey])"
    by (simp add: service_host_key)
  have v: "generateVisualPrompt ?H (build_request scenario_A_state) [HasSelectedApiKey] =
             (Inl entity_not_found,
              [HasSelectedApiKey, GenerateContent (scene_request ?H (build_request scenario_A_state))])"
    by (simp add: service_host_scene)
  from handleGenerate_scene_throws [OF k v] show ?thesis
    by (simp add: scene_step_service_host image_step_not_reached shown_error_entity)
qed

text \<open>
  A rejection with \<open>undefined\<close> in the image step: the \<open>catch\<close> block throws on reading its
  message, no message is set, and the handler ends by throwing with the loading
  indicators reset.
\<close>

lemma handleGenerate_undefined_rejection:
  "handleGenerate (service_host (Inr (text_response scene_json)) (Inl JUndefined))
     (scenario_A_state, []) =
     (Threw, scenario_A_state,
      [HasSelectedApiKey,
       GenerateContent (scene_request
         (service_host (Inr (text_response scene_json)) (Inl JUndefined))
         (build_request scenario_A_state)),
       GenerateContent (image_request
         (service_host (Inr (text_response scene_json)) (Inl JUndefined))
         (build_request scenario_A_state)
         (context_of_response (service_host (Inr (text_response scene_json)) (Inl JUndefined))
            (text_response scene_json)))])"
proof -
  let ?H = "service_host (Inr (text_response scene_json)) (Inl JUndefined)"
  let ?s = scenario_A_state
  have k: "ensureApiKey ?H [] = (Inr True, [HasSelectedApiKey])"
    by (simp add: service_host_key)
  have v: "generateVisualPrompt ?H (build_request ?s) [HasSelectedApiKey] =
             (Inr (context_of_response ?H (text_response scene_json)),
              [HasSelectedApiKey, GenerateContent (scene_request ?H (build_request ?s))])"
    by (simp add: service_host_scene)
  have g: "generateSnapshot ?H (build_request ?s)
             (context_of_response ?H (text_response scene_json))
             [HasSelectedApiKey, GenerateContent (scene_request ?H (build_request ?s))] =
             (Inl JUndefined,
              [HasSelectedApiKey, GenerateContent (scene_request ?H (build_request ?s)),
               GenerateContent (image_request ?H (build_request ?s)
                  (context_of_response ?H (text_response scene_json)))])"
    by (simp add: service_host_image)
  from handleGenerate_image_throws [OF k v g] show ?thesis
    by (simp add: shown_error_nullish scenario_A_state_def initial_state_def)
qed

text \<open>The calls of a run: those of the credential check, then generation requests only.\<close>

lemma handleGenerate_trace:
  "\<exists>gs. snd (snd (handleGenerate H (s, tr))) = snd (ensureApiKey H tr) @ gs
         \<and> list_all is_generation_call gs
         \<and> (gs \<noteq> [] \<longrightarrow> fst (ensureApiKey H tr) = Inr True)"
proof (cases rule: handleGenerate_cases [where H = H and tr = tr and s = s])
  case (no_key tr1)
  then show ?thesis
    by (simp add: handleGenerate_no_key)
next
  case (key_throws e tr1)
  then show ?thesis
    by (simp add: handleGenerate_key_throws)
next
  case (scene_throws tr1 e tr2)
  moreover from scene_throws
  have "tr2 = tr1 @ [GenerateContent (scene_request H (build_request s))]"
    using generateVisualPrompt_trace [of H "build_request s" tr1] by simp
  ultimately show ?thesis
    by (simp add: handleGenerate_scene_throws)
next
  case (image_throws tr1 vc tr2 e tr3)
  moreover from image_throws
  have "tr2 = tr1 @ [GenerateContent (scene_request H (build_request s))]"
    using generateVisualPrompt_trace [of H "build_request s" tr1] by simp
  moreover from image_throws
  have "tr3 = tr2 @ [GenerateContent (image_request H (build_request s) vc)]"
    using generateSnapshot_trace [of H "build_request s" vc tr2] by simp
  ultimately show ?thesis
    by (simp add: handleGenerate_image_throws)
next
  case (success tr1 vc tr2 img tr3)
  moreover from success
  have "tr2 = tr1 @ [GenerateContent (scene_request H (build_request s))]"
    using generateVisualPrompt_trace [of H "build_request s" tr1] by simp
  moreover from success
  have "tr3 = tr2 @ [GenerateContent (image_request H (build_request s) vc)]"
    using generateSnapshot_trace [of H "build_request s" vc tr2] by simp
  ultimately show ?thesis
    by (simp add: handleGenerate_success)
qed

text \<open>
  C4. Without the collaborator the credential is unavailable and no call is made. With
  it, a positive first check settles the matter; after a negative first check the picker
  is opened once and the check repeated, and the answer of the second check is the
  result. When the result is negative the run ends with the credential-required message
  and makes no call beyond those of the check. In every run the calls of the credential
  check come first, and a generation request is only made after a positive result.
\<close>

theorem handleGenerate_checks_credential_first:
  "(aistudio H = None \<longrightarrow> ensureApiKey H tr = (Inr False, tr))
   \<and> (\<forall>a. aistudio H = Some a \<and> hasSelectedApiKey a tr = Inr True
          \<longrightarrow> ensureApiKey H tr = (Inr True, tr @ [HasSelectedApiKey]))
   \<and> (\<forall>a. aistudio H = Some a \<and> hasSelectedApiKey a tr = Inr False
            \<and> openSelectKey a (tr @ [HasSelectedApiKey]) = Inr ()
          \<longrightarrow> ensureApiKey H tr =
                (hasSelectedApiKey a (tr @ [HasSelectedApiKey, OpenSelectKey]),
                 tr @ [HasSelectedApiKey, OpenSelectKey, HasSelectedApiKey]))
   \<and> (fst (ensureApiKey H tr) = Inr False
          \<longrightarrow> handleGenerate H (s, tr) =
                (Returned,
                 s\<lparr>error := Some (JStr ''API Key is required to use the Time Machine.''),
                   result := None, isLoading := False, loadingStep := []\<rparr>,
                 snd (ensureApiKey H tr)))
   \<and> (\<exists>ks gs. snd (ensureApiKey H tr) = tr @ ks \<and> list_all is_key_call ks
          \<and> snd (snd (handleGenerate H (s, tr))) = tr @ ks @ gs \<and> list_all is_generation_call gs
          \<and> (gs \<noteq> [] \<longrightarrow> fst (ensureApiKey H tr) = Inr True))"
proof -
  have absent: "aistudio H = None \<longrightarrow> ensureApiKey H tr = (Inr False, tr)"
    by (simp add: ensureApiKey_def)
  have selected: "\<forall>a. aistudio H = Some a \<and> hasSelectedApiKey a tr = Inr True
          \<longrightarrow> ensureApiKey H tr = (Inr True, tr @ [HasSelectedApiKey])"
    by (simp add: ensureApiKey_def)
  have picked: "\<forall>a. aistudio H = Some a \<and> hasSelectedApiKey a tr = Inr False
            \<and> openSelectKey a (tr @ [HasSelectedApiKey]) = Inr ()
          \<longrightarrow> ensureApiKey H tr =
                (hasSelectedApiKey a (tr @ [HasSelectedApiKey, OpenSelectKey]),
                 tr @ [HasSelectedApiKey, OpenSelectKey, HasSelectedApiKey])"
    by (simp add: ensureApiKey_def)
  have unavailable: "fst (ensureApiKey H tr) = Inr False
          \<longrightarrow> handleGenerate H (s, tr) =
                (Returned,
                 s\<lparr>error := Some (JStr ''API Key is required to use the Time Machine.''),
                   result := None, isLoading := False, loadingStep := []\<rparr>,
                 snd (ensureApiKey H tr))"
    using handleGenerate_no_key [of H tr "snd (ensureApiKey H tr)" s]
    by (cases "ensureApiKey H tr") auto
  obtain ks where ks: "snd (ensureApiKey H tr) = tr @ ks" "list_all is_key_call ks"
    using ensureApiKey_trace [of H tr] by blast
  obtain gs where gs: "snd (snd (handleGenerate H (s, tr))) = snd (ensureApiKey H tr) @ gs"
    "list_all is_generation_call gs" "gs \<noteq> [] \<longrightarrow> fst (ensureApiKey H tr) = Inr True"
    using handleGenerate_trace [of H s tr] by blast
  from ks gs have order: "\<exists>ks gs. snd (ensureApiKey H tr) = tr @ ks \<and> list_all is_key_call ks
          \<and> snd (snd (handleGenerate H (s, tr))) = tr @ ks @ gs \<and> list_all is_generation_call gs
          \<and> (gs \<noteq> [] \<longrightarrow> fst (ensureApiKey H tr) = Inr True)"
    by auto
  from absent selected picked unavailable order show ?thesis
    by blast
qed

theorem handleGenerate_checks_credential_first_witness:
  "aistudio bare_host = None
   \<and> handleGenerate bare_host (scenario_A_state, []) =
       (Returned,
        scenario_A_state\<lparr>error := Some (JStr ''API Key is required to use the Time Machine.'')\<rparr>,
        [])
   \<and> hasSelectedApiKey key_selected [] = Inr True
   \<and> ensureApiKey (bare_host\<lparr>aistudio := Some key_selected\<rparr>) [] = (Inr True, [HasSelectedApiKey])
   \<and> hasSelectedApiKey key_from_picker [] = Inr False
   \<and> ensureApiKey (bare_host\<lparr>aistudio := Some key_from_picker\<rparr>) []
       = (Inr True, [HasSelectedApiKey, OpenSelectKey, HasSelectedApiKey])
   \<and> fst (ensureApiKey (bare_host\<lparr>aistudio := Some key_declined\<rparr>) []) = Inr False
   \<and> handleGenerate (bare_host\<lparr>aistudio := Some key_declined\<rparr>) (scenario_A_state, []) =
       (Returned,
        scenario_A_state\<lparr>error := Some (JStr ''API Key is required to use the Time Machine.'')\<rparr>,
        [HasSelectedApiKey, OpenSelectKey, HasSelectedApiKey])"
proof -
  let ?S = "bare_host\<lparr>aistudio := Some key_selected\<rparr>"
  let ?P = "bare_host\<lparr>aistudio := Some key_from_picker\<rparr>"
  let ?D = "bare_host\<lparr>aistudio := Some key_declined\<rparr>"
  have b: "aistudio bare_host = None"
    by (simp add: bare_host_def)
  have s: "aistudio ?S = Some key_selected" "hasSelectedApiKey key_selected [] = Inr True"
    by (simp_all add: key_selected_def)
  have p: "aistudio ?P = Some key_from_picker" "hasSelectedApiKey key_from_picker [] = Inr False"
    "openSelectKey key_from_picker ([] @ [HasSelectedApiKey]) = Inr ()"
    "hasSelectedApiKey key_from_picker ([] @ [HasSelectedApiKey, OpenSelectKey]) = Inr True"
    by (simp_all add: key_from_picker_def)
  have d: "aistudio ?D = Some key_declined" "hasSelectedApiKey key_declined [] = Inr False"
    "openSelectKey key_declined ([] @ [HasSelectedApiKey]) = Inr ()"
    "hasSelectedApiKey key_declined ([] @ [HasSelectedApiKey, OpenSelectKey]) = Inr False"
    by (simp_all add: key_declined_def)
  note t = handleGenerate_checks_credential_first
  from t [of bare_host "[]" scenario_A_state] b
  have 1: "handleGenerate bare_host (scenario_A_state, []) =
       (Returned,
        scenario_A_state\<lparr>error := Some (JStr ''API Key is required to use the Time Machine.'')\<rparr>,
        [])"
    by (simp add: scenario_A_state_def initial_state_def)
  from t [of ?S "[]" scenario_A_state] s
  have 2: "ensureApiKey ?S [] = (Inr True, [HasSelectedApiKey])"
    by simp
  from t [of ?P "[]" scenario_A_state] p
  have 3: "ensureApiKey ?P [] = (Inr True, [HasSelectedApiKey, OpenSelectKey, HasSelectedApiKey])"
    by simp
  from t [of ?D "[]" scenario_A_state] d
  have 4: "ensureApiKey ?D [] = (Inr False, [HasSelectedApiKey, OpenSelectKey, HasSelectedApiKey])"
    by simp
  from t [of ?D "[]" scenario_A_state] 4
  have 5: "handleGenerate ?D (scenario_A_state, []) =
       (Returned,
        scenario_A_state\<lparr>error := Some (JStr ''API Key is required to use the Time Machine.'')\<rparr>,
        [HasSelectedApiKey, OpenSelectKey, HasSelectedApiKey])"
    by (simp add: scenario_A_state_def initial_state_def)
  from b s(2) p(2) 1 2 3 4 5 show ?thesis
    by simp
qed






subsection \<open>Presets, search and map clicks\<close>

lemma RECOMMENDATIONS_length: "length RECOMMENDATIONS = 6"
  by (simp add: RECOMMENDATIONS_def)

text \<open>
  C7. Selecting a preset (the option value parses to an index of the table) gives, in
  one update of the state, the location name, coordinates, date, time and style of that
  preset, and clears the result and the error message; the loading indicators are left
  as they were.
\<close>

theorem handleRecommendationChange_sets_preset:
  assumes "parseInt H v = Some (int i)" and "i < length RECOMMENDATIONS"
  shows "\<exists>s'. handleRecommendationChange H v s = Some s'
           \<and> AppState.locationName s' = Recommendation.locationName (RECOMMENDATIONS ! i)
           \<and> AppState.coords s' = Recommendation.coords (RECOMMENDATIONS ! i)
           \<and> AppState.date s' = Recommendation.date (RECOMMENDATIONS ! i)
           \<and> AppState.time s' = Recommendation.time (RECOMMENDATIONS ! i)
           \<and> AppState.style s' = Recommendation.style (RECOMMENDATIONS ! i)
           \<and> result s' = None
           \<and> error s' = None
           \<and> isLoading s' = isLoading s
           \<and> loadingStep s' = loadingStep s"
  using assms by (simp add: handleRecommendationChange_def Let_def)

theorem handleRecommendationChange_sets_preset_witness:
  "parseInt bare_host ''3'' = Some (int 3) \<and> 3 < length RECOMMENDATIONS
   \<and> handleRecommendationChange bare_host ''3''
        (initial_state\<lparr>result := Some earlier_image, error := Some (JStr ''Location not found.'')\<rparr>)
      = Some \<lparr>coords = \<lparr>lat = Fin 9.7489, lng = Fin (- 83.7534)\<rparr>,
              locationName = ''Isla Nublar (Costa Rica)'',
              date = ''-65000000-01-01'', time = ''12:00'', style = CINEMATIC,
              isLoading = False, loadingStep = [], result = None, error = None\<rparr>"
proof -
  let ?s = "initial_state\<lparr>result := Some earlier_image, error := Some (JStr ''Location not found.'')\<rparr>"
  have p: "parseInt bare_host ''3'' = Some (int 3)"
    by (simp add: bare_host_def parseInt_table_def)
  have l: "3 < length RECOMMENDATIONS"
    by (simp add: RECOMMENDATIONS_def)
  have r: "RECOMMENDATIONS ! 3 =
             \<lparr>Recommendation.locationName = ''Isla Nublar (Costa Rica)'',
              Recommendation.coords = \<lparr>lat = Fin 9.7489, lng = Fin (- 83.7534)\<rparr>,
              Recommendation.date = ''-65000000-01-01'', Recommendation.time = ''12:00'',
              Recommendation.style = CINEMATIC\<rparr>"
    by (simp add: RECOMMENDATIONS_def)
  from handleRecommendationChange_sets_preset [OF p l, of ?s]
  obtain s' where "handleRecommendationChange bare_host ''3'' ?s = Some s'"
    and "AppState.locationName s' = ''Isla Nublar (Costa Rica)''"
    and "AppState.coords s' = \<lparr>lat = Fin 9.7489, lng = Fin (- 83.7534)\<rparr>"
    and "AppState.date s' = ''-65000000-01-01''"
    and "AppState.time s' = ''12:00''"
    and "AppState.style s' = CINEMATIC"
    and "result s' = None" and "error s' = None"
    and "isLoading s' = False" and "loadingStep s' = []"
    unfolding r by (auto simp: initial_state_def)
  then show ?thesis
    using p l by (cases s') simp
qed

text \<open>
  C8. When the search is made (the location name is not blank) and the geocoding service
  answers with an empty list of results, the message \<open>Location not found.\<close> is set and the
  coordinates and the location name are left as they were.
\<close>

theorem handleSearch_no_results:
  assumes "js_trim (AppState.locationName s) \<noteq> []"
    and "fetch H tr (search_url H (AppState.locationName s)) = Inr (Response (Inr (JArr [])))"
  shows "handleSearch H (s, tr) =
           (s\<lparr>error := Some (JStr ''Location not found.''), isLoading := False, loadingStep := []\<rparr>,
            tr @ [Fetch (search_url H (AppState.locationName s))])
       \<and> AppState.coords (fst (handleSearch H (s, tr))) = AppState.coords s
       \<and> AppState.locationName (fst (handleSearch H (s, tr))) = AppState.locationName s
       \<and> error (fst (handleSearch H (s, tr))) = Some (JStr ''Location not found.'')"
  using assms by (simp add: handleSearch_def handleSearch_try_def Let_def js_gt_zero_def)

theorem handleSearch_no_results_witness:
  "js_trim (AppState.locationName (initial_state\<lparr>AppState.locationName := ''Atlantis''\<rparr>)) \<noteq> []
   \<and> fetch (geocoder_host (Inr (Response (Inr (JArr []))))) []
        (search_url (geocoder_host (Inr (Response (Inr (JArr [])))))
           (AppState.locationName (initial_state\<lparr>AppState.locationName := ''Atlantis''\<rparr>)))
      = Inr (Response (Inr (JArr [])))
   \<and> handleSearch (geocoder_host (Inr (Response (Inr (JArr [])))))
        (initial_state\<lparr>AppState.locationName := ''Atlantis''\<rparr>, [])
      = (initial_state\<lparr>AppState.locationName := ''Atlantis'', error := Some (JStr ''Location not found.'')\<rparr>,
         [Fetch ''https://nominatim.openstreetmap.org/search?format=json&q=Atlantis''])"
proof -
  let ?H = "geocoder_host (Inr (Response (Inr (JArr []))))"
  let ?s = "initial_state\<lparr>AppState.locationName := ''Atlantis''\<rparr>"
  have t: "js_trim (AppState.locationName ?s) \<noteq> []"
    by (simp add: js_trim_def js_whitespace_def)
  have f: "fetch ?H [] (search_url ?H (AppState.locationName ?s)) = Inr (Response (Inr (JArr [])))"
    by (simp add: geocoder_host_def)
  have u: "search_url ?H ''Atlantis'' =
             ''https://nominatim.openstreetmap.org/search?format=json&q=Atlantis''"
    by (simp add: search_url_def geocoder_host_def bare_host_def)
  from handleSearch_no_results [OF t f] t f u show ?thesis
    by (simp add: initial_state_def)
qed

text \<open>
  C9. Whatever the geocoding service does (the request fails, the body is not JSON, the
  value has no display name), \<open>handleReverseGeocode\<close> returns normally and leaves the error
  message as it was. A map click always returns normally with the clicked coordinates
  set, the error message unchanged, and nothing else changed but possibly the location
  name.
\<close>

theorem handleMapClick_never_fails:
  "fst (handleReverseGeocode H c (s, tr)) = Returned
   \<and> error (fst (snd (handleReverseGeocode H c (s, tr)))) = error s
   \<and> fst (handleMapClick H c (s, tr)) = Returned
   \<and> AppState.coords (fst (snd (handleMapClick H c (s, tr)))) = c
   \<and> error (fst (snd (handleMapClick H c (s, tr)))) = error s
   \<and> fst (snd (handleMapClick H c (s, tr))) =
       s\<lparr>AppState.coords := c,
         AppState.locationName := AppState.locationName (fst (snd (handleMapClick H c (s, tr))))\<rparr>"
proof -
  have attempt: "\<exists>k n. handleReverseGeocode_try H c (s0, tr) =
                 (k, s0\<lparr>AppState.locationName := n\<rparr>, tr @ [Fetch (reverse_url H c)])" for s0
    by (auto simp: handleReverseGeocode_try_def Let_def
        split: sum.splits fetch_response.splits option.splits jsval.splits
        intro: exI [of _ "AppState.locationName s0"])
  have rev: "\<exists>n. handleReverseGeocode H c (s0, tr) =
                 (Returned, s0\<lparr>AppState.locationName := n\<rparr>, tr @ [Fetch (reverse_url H c)])" for s0
  proof -
    from attempt [of s0] obtain k n where
      "handleReverseGeocode_try H c (s0, tr) =
         (k, s0\<lparr>AppState.locationName := n\<rparr>, tr @ [Fetch (reverse_url H c)])"
      by blast
    then show ?thesis
      by (cases k) (auto simp: handleReverseGeocode_def)
  qed
  from rev [of s] obtain n where
    n: "handleReverseGeocode H c (s, tr) =
          (Returned, s\<lparr>AppState.locationName := n\<rparr>, tr @ [Fetch (reverse_url H c)])"
    by blast
  from rev [of "s\<lparr>AppState.coords := c\<rparr>"] obtain m where
    m: "handleMapClick H c (s, tr) =
          (Returned, s\<lparr>AppState.coords := c, AppState.locationName := m\<rparr>,
           tr @ [Fetch (reverse_url H c)])"
    by (auto simp: handleMapClick_def)
  show ?thesis
    by (simp add: n m)
qed

end
